theory Spec2Isabelle
  imports Complex_Main "HOL-Library.Multiset" "HOL-Library.Product_Lexorder"
begin

section \<open>Brent oil event analysis: the dashboard and the impact pipeline\<close>

text \<open>
  The repository is a React dashboard over a Flask API. The frontend is under
  \<^verbatim>\<open>src/\<close>: \<^verbatim>\<open>App.js\<close> (the single-page dashboard), the page
  \<^verbatim>\<open>Dashboard\<close> (\<^verbatim>\<open>src/unnamed/part_001\<close>) and the chart components. The
  backend (\<^verbatim>\<open>dashboard/backend/app.py\<close>) that slices, resamples and analyses
  the price series is not among the sources; where a property is about it, the
  operation is modelled from the specification and marked so.

  Where the code only stores or compares numbers they are \<^typ>\<open>real\<close>. Where
  it computes with them (the average volatility) the result is a double: a
  finite value, an infinity or NaN, with the rounding of binary64 as a
  parameter. In the typed payloads \<^verbatim>\<open>undefined\<close> and \<^verbatim>\<open>null\<close> are
  \<^term>\<open>None\<close>.
\<close>

subsection \<open>JavaScript values\<close>

text \<open>\<^verbatim>\<open>xs[i]\<close>: reading past the end of an array gives \<^verbatim>\<open>undefined\<close>.\<close>

definition js_index :: "'a list \<Rightarrow> nat \<Rightarrow> 'a option" where
  "js_index xs i = (if i < length xs then Some (xs ! i) else None)"

text \<open>\<^verbatim>\<open>v || []\<close> on an optional array.\<close>

definition or_empty :: "'a list option \<Rightarrow> 'a list" where
  "or_empty v = (case v of None \<Rightarrow> [] | Some xs \<Rightarrow> xs)"

text \<open>
  A number of the language is a binary64 value: finite, an infinity or NaN
  (the sign of zero is not kept). An arithmetic result is rounded, and a
  result beyond \<^verbatim>\<open>Number.MAX_VALUE\<close> is an infinity. The rounding to the
  nearest binary64 value of unbounded exponent is the parameter \<open>rnd\<close>.
\<close>

datatype js_number = Finite real | PosInfinity | NegInfinity | NaN

definition max_value :: real where
  "max_value = (2 - 1 / 2 ^ 52) * 2 ^ 1023"

definition js_round :: "(real \<Rightarrow> real) \<Rightarrow> real \<Rightarrow> js_number" where
  "js_round rnd x =
     (if max_value < rnd x then PosInfinity
      else if rnd x < - max_value then NegInfinity
      else Finite (rnd x))"

fun is_finite :: "js_number \<Rightarrow> bool" where
  "is_finite (Finite x) = True"
| "is_finite n = False"

text \<open>\<^verbatim>\<open>a + b\<close> on numbers.\<close>

fun js_add :: "(real \<Rightarrow> real) \<Rightarrow> js_number \<Rightarrow> js_number \<Rightarrow> js_number" where
  "js_add rnd NaN b = NaN"
| "js_add rnd a NaN = NaN"
| "js_add rnd PosInfinity NegInfinity = NaN"
| "js_add rnd NegInfinity PosInfinity = NaN"
| "js_add rnd PosInfinity b = PosInfinity"
| "js_add rnd a PosInfinity = PosInfinity"
| "js_add rnd NegInfinity b = NegInfinity"
| "js_add rnd a NegInfinity = NegInfinity"
| "js_add rnd (Finite x) (Finite y) = js_round rnd (x + y)"

text \<open>
  \<^verbatim>\<open>a / n\<close> where the divisor is the length of an array, a non-negative
  integer: \<^verbatim>\<open>0/0\<close> is NaN, \<^verbatim>\<open>x/0\<close> is an infinity.
\<close>

fun js_div :: "(real \<Rightarrow> real) \<Rightarrow> js_number \<Rightarrow> nat \<Rightarrow> js_number" where
  "js_div rnd NaN n = NaN"
| "js_div rnd PosInfinity n = PosInfinity"
| "js_div rnd NegInfinity n = NegInfinity"
| "js_div rnd (Finite x) n =
     (if n = 0 then (if x = 0 then NaN else if 0 < x then PosInfinity else NegInfinity)
      else js_round rnd (x / real n))"

text \<open>
  A parsed JSON document, and the truthiness of a value. An object keeps its
  members in the order of the text; a repeated key reads as its last member.
\<close>

datatype json =
  JNull | JBool bool | JNum js_number | JStr string | JArr "json list" | JObj "(string \<times> json) list"

fun truthy :: "json \<Rightarrow> bool" where
  "truthy JNull = False"
| "truthy (JBool b) = b"
| "truthy (JNum n) = (n \<noteq> Finite 0 \<and> n \<noteq> NaN)"
| "truthy (JStr s) = (s \<noteq> [])"
| "truthy (JArr xs) = True"
| "truthy (JObj members) = True"

text \<open>
  \<^verbatim>\<open>v?.name\<close> for a member name that is not a built-in property
  (\<^verbatim>\<open>change_points\<close>, \<^verbatim>\<open>correlations\<close>): \<^verbatim>\<open>undefined\<close>, here
  \<^term>\<open>None\<close>, unless \<open>v\<close> is an object that has the member.
\<close>

fun get_member :: "string \<Rightarrow> json \<Rightarrow> json option" where
  "get_member name (JObj members) = map_of (rev members) name"
| "get_member name v = None"

text \<open>\<^verbatim>\<open>x || []\<close>\<close>

fun or_array :: "json option \<Rightarrow> json" where
  "or_array None = JArr []"
| "or_array (Some v) = (if truthy v then v else JArr [])"

subsection \<open>App.js: priceSeries\<close>

text \<open>
  \<^verbatim>\<open>
  const priceSeries = useMemo(() => {
    const dates = data.prices?.dates || [];
    const prices = data.prices?.prices || [];
    const count = Math.min(dates.length, prices.length);
    return Array.from({ length: count }, (_, index) => ({
      date: dates[index],
      dateLabel: formatDate(dates[index], { month: 'short', year: '2-digit' }),
      price: prices[index]
    }));
  }, [data.prices]);
  \<close>
  The fields of the payload that this computation does not read (\<^verbatim>\<open>stats\<close>,
  \<^verbatim>\<open>count\<close>, \<^verbatim>\<open>date_range\<close>) are left out. \<^verbatim>\<open>formatDate\<close> goes
  through \<^verbatim>\<open>Date\<close> and \<^verbatim>\<open>toLocaleDateString\<close> and is a parameter.
\<close>

record prices_payload =
  dates :: "string list option"
  prices :: "real list option"

record price_entry =
  pe_date :: "string option"
  pe_dateLabel :: string
  pe_price :: "real option"

definition dates_of :: "prices_payload option \<Rightarrow> string list" where
  "dates_of payload = or_empty (case payload of None \<Rightarrow> None | Some p \<Rightarrow> dates p)"

definition prices_of :: "prices_payload option \<Rightarrow> real list" where
  "prices_of payload = or_empty (case payload of None \<Rightarrow> None | Some p \<Rightarrow> prices p)"

definition priceSeries :: "(string option \<Rightarrow> string) \<Rightarrow> prices_payload option \<Rightarrow> price_entry list" where
  "priceSeries formatDate payload =
     (let ds = dates_of payload;
          ps = prices_of payload;
          count = min (length ds) (length ps)
      in map (\<lambda>index. \<lparr> pe_date = js_index ds index,
                         pe_dateLabel = formatDate (js_index ds index),
                         pe_price = js_index ps index \<rparr>) [0..<count])"

subsection \<open>Dashboard page: average volatility\<close>

text \<open>
  \<^verbatim>\<open>
  const returns = await api.getReturns();
  const vol = returns.data.volatility || [];
  setAvgVolatility(vol.length ? (vol.reduce((a, b) => a + b, 0) / vol.length) : null);
  \<close>
  The array holds numbers; the sum and the quotient are computed in doubles.
\<close>

definition avgVolatility :: "(real \<Rightarrow> real) \<Rightarrow> js_number list option \<Rightarrow> js_number option" where
  "avgVolatility rnd volatility =
     (let vol = or_empty volatility
      in if length vol \<noteq> 0
         then Some (js_div rnd (foldl (js_add rnd) (Finite 0) vol) (length vol))
         else None)"

subsection \<open>App.js: fetchAllData\<close>

text \<open>
  The six requests are awaited with \<^verbatim>\<open>Promise.allSettled\<close>, which never rejects:
  each result is fulfilled with a value (the parsed body, or \<^verbatim>\<open>null\<close> after a
  tolerated 404) or rejected. The reason of a rejection is not read.
\<close>

datatype 'a settled = Fulfilled 'a | Rejected

record requests =
  pricesResult :: "json settled"
  eventsResult :: "json settled"
  summaryResult :: "json settled"
  cpResult :: "json settled"
  volResult :: "json settled"
  corrResult :: "json settled"

record dashboard_data =
  d_prices :: json
  d_events :: json
  d_analysis :: json
  d_changePoints :: json
  d_volatility :: json
  d_correlations :: json

record app_state =
  loading :: bool
  error :: "string option"
  data :: dashboard_data
  lastUpdated :: "string option"

fun rejected :: "'a settled \<Rightarrow> bool" where
  "rejected Rejected = True"
| "rejected (Fulfilled v) = False"

text \<open>\<^verbatim>\<open>r.status === 'fulfilled' && r.value ? r.value : dflt\<close>\<close>

fun value_or :: "json \<Rightarrow> json settled \<Rightarrow> json" where
  "value_or dflt (Fulfilled v) = (if truthy v then v else dflt)"
| "value_or dflt Rejected = dflt"

text \<open>\<^verbatim>\<open>r.status === 'fulfilled' ? r.value : null\<close>\<close>

fun value_or_null :: "json settled \<Rightarrow> json" where
  "value_or_null (Fulfilled v) = v"
| "value_or_null Rejected = JNull"

text \<open>\<^verbatim>\<open>r.status === 'fulfilled' ? (r.value?.name || []) : []\<close>\<close>

fun list_or_empty :: "string \<Rightarrow> json settled \<Rightarrow> json" where
  "list_or_empty name (Fulfilled v) = or_array (get_member name v)"
| "list_or_empty name Rejected = JArr []"

text \<open>\<^verbatim>\<open>items.join(', ')\<close>\<close>

fun join :: "string list \<Rightarrow> string" where
  "join [] = []"
| "join [x] = x"
| "join (x # y # ys) = x @ '', '' @ join (y # ys)"

definition errors :: "requests \<Rightarrow> string list" where
  "errors rs =
     (if rejected (pricesResult rs) then [''price''] else []) @
     (if rejected (eventsResult rs) then [''event''] else []) @
     (if rejected (summaryResult rs) then [''summary''] else []) @
     (if rejected (cpResult rs) then [''change point''] else []) @
     (if rejected (volResult rs) then [''volatility''] else []) @
     (if rejected (corrResult rs) then [''correlation''] else [])"

definition criticalErrors :: "requests \<Rightarrow> string list" where
  "criticalErrors rs = filter (\<lambda>item. item = ''price'' \<or> item = ''event'') (errors rs)"

text \<open>
  \<^verbatim>\<open>{ dates: [], prices: [], stats: {}, count: 0, date_range: {} }\<close> and
  \<^verbatim>\<open>{ events: [], type_distribution: {}, count: 0 }\<close>
\<close>

definition emptyPrices :: json where
  "emptyPrices =
     JObj [(''dates'', JArr []), (''prices'', JArr []), (''stats'', JObj []),
           (''count'', JNum (Finite 0)), (''date_range'', JObj [])]"

definition emptyEvents :: json where
  "emptyEvents =
     JObj [(''events'', JArr []), (''type_distribution'', JObj []), (''count'', JNum (Finite 0))]"

definition nextData :: "requests \<Rightarrow> dashboard_data" where
  "nextData rs =
     \<lparr> d_prices = value_or emptyPrices (pricesResult rs),
       d_events = value_or emptyEvents (eventsResult rs),
       d_analysis = value_or_null (summaryResult rs),
       d_changePoints = list_or_empty ''change_points'' (cpResult rs),
       d_volatility = value_or_null (volResult rs),
       d_correlations = list_or_empty ''correlations'' (corrResult rs) \<rparr>"

text \<open>
  The body of \<^verbatim>\<open>fetchAllData\<close> after the requests have settled; \<open>now\<close> is
  \<^verbatim>\<open>new Date().toISOString()\<close>. Nothing in the \<^verbatim>\<open>try\<close> block throws
  (optional chaining guards every property read), so the \<^verbatim>\<open>catch\<close> branch
  has no input that reaches it.
\<close>

definition fetchAllData :: "string \<Rightarrow> requests \<Rightarrow> app_state \<Rightarrow> app_state" where
  "fetchAllData now rs st =
     (let st1 = st\<lparr> loading := True, error := None \<rparr>;
          st2 = (if length (criticalErrors rs) > 0
                 then st1\<lparr> error := Some (''Partial data load: '' @ join (criticalErrors rs) @ ''.'') \<rparr>
                 else st1);
          st3 = st2\<lparr> data := nextData rs, lastUpdated := Some now \<rparr>
      in st3\<lparr> loading := False \<rparr>)"

subsection \<open>App.js: impactSeries and the list of top impact events\<close>

text \<open>
  \<^verbatim>\<open>
  const impactSeries = useMemo(() => {
    return (data.correlations || []).map((eventItem) => ({
      title: eventItem.event || eventItem.title,
      date: eventItem.date,
      dateLabel: formatDate(eventItem.date, { month: 'short', year: '2-digit' }),
      price_change: eventItem.price_change,
      magnitude: eventItem.magnitude,
      type: eventItem.type,
      size: Math.max(4, Math.min(40, Math.abs(eventItem.magnitude || 0)))
    }));
  }, [data.correlations]);
  \<close>
  Dates are the ISO strings of the payload. \<^verbatim>\<open>price_change\<close> is a number
  (a missing one would make the comparator below return NaN).
\<close>

record correlation_item =
  c_event :: "string option"
  c_title :: "string option"
  c_date :: string
  c_price_change :: real
  c_magnitude :: "real option"
  c_type :: string

record impact_item =
  i_title :: "string option"
  i_date :: string
  i_dateLabel :: string
  price_change :: real
  i_magnitude :: "real option"
  i_type :: string
  i_size :: real

text \<open>\<^verbatim>\<open>a || b\<close> on optional strings: the empty string is falsy.\<close>

definition str_or :: "string option \<Rightarrow> string option \<Rightarrow> string option" where
  "str_or a b = (case a of None \<Rightarrow> b | Some x \<Rightarrow> if x = [] then b else Some x)"

definition impactSeries :: "(string option \<Rightarrow> string) \<Rightarrow> correlation_item list \<Rightarrow> impact_item list" where
  "impactSeries formatDate correlations =
     map (\<lambda>eventItem.
            \<lparr> i_title = str_or (c_event eventItem) (c_title eventItem),
              i_date = c_date eventItem,
              i_dateLabel = formatDate (Some (c_date eventItem)),
              price_change = c_price_change eventItem,
              i_magnitude = c_magnitude eventItem,
              i_type = c_type eventItem,
              i_size = max 4 (min 40 \<bar>case c_magnitude eventItem of None \<Rightarrow> 0 | Some m \<Rightarrow> m\<bar>) \<rparr>)
         correlations"

text \<open>
  \<^verbatim>\<open>
  impactSeries
    .slice()
    .sort((a, b) => Math.abs(b.price_change) - Math.abs(a.price_change))
    .slice(0, 6)
  \<close>
  \<^verbatim>\<open>Array.prototype.sort\<close> is stable, and the comparator puts \<open>a\<close> before
  \<open>b\<close> when \<open>|b.price_change| < |a.price_change|\<close>: the result is the stable
  sort by the key \<open>- |price_change|\<close>. The comparator reads no other field.
\<close>

definition rank :: "impact_item list \<Rightarrow> impact_item list" where
  "rank items = sort_key (\<lambda>e. - \<bar>price_change e\<bar>) items"

definition topImpactEvents :: "impact_item list \<Rightarrow> impact_item list" where
  "topImpactEvents items = take 6 (rank items)"

subsection \<open>PriceChartWithEvents.js: chart data and event markers\<close>

text \<open>
  \<^verbatim>\<open>parseISO\<close> and \<^verbatim>\<open>format\<close> belong to the library date-fns and are
  parameters. A \<^verbatim>\<open>Date\<close> is either invalid (its getters return NaN) or
  carries its calendar fields; \<^verbatim>\<open>===\<close> between two getter results is false
  as soon as one of them is NaN.
\<close>

datatype js_date = InvalidDate | ValidDate int nat nat

fun getFullYear :: "js_date \<Rightarrow> int option" where
  "getFullYear InvalidDate = None"
| "getFullYear (ValidDate y m d) = Some y"

fun getMonth :: "js_date \<Rightarrow> nat option" where
  "getMonth InvalidDate = None"
| "getMonth (ValidDate y m d) = Some m"

definition strict_eq :: "'a option \<Rightarrow> 'a option \<Rightarrow> bool" where
  "strict_eq a b = (case a of None \<Rightarrow> False | Some x \<Rightarrow> (case b of None \<Rightarrow> False | Some y \<Rightarrow> x = y))"

datatype js_error = RangeError

record chart_point =
  cp_date :: js_date
  cp_price :: "real option"
  formattedDate :: string

record event =
  ev_date :: string
  ev_title :: string
  ev_type :: string

record event_marker =
  m_event :: event
  chartDate :: js_date
  chartPrice :: "real option"
  m_x :: nat
  m_y :: "real option"

text \<open>
  \<^verbatim>\<open>
  const chartData = priceData.dates.map((date, index) => ({
    date: parseISO(date),
    price: priceData.prices[index],
    formattedDate: format(parseISO(date), 'MMM yyyy')
  }));
  \<close>
  \<^verbatim>\<open>format\<close> may throw, which ends the rendering.
\<close>

fun chartData_from ::
  "(string \<Rightarrow> js_date) \<Rightarrow> (js_date \<Rightarrow> js_error + string) \<Rightarrow> real list \<Rightarrow> nat \<Rightarrow> string list
    \<Rightarrow> js_error + chart_point list" where
  "chartData_from parseISO format ps index [] = Inr []"
| "chartData_from parseISO format ps index (date # ds) =
     (case format (parseISO date) of
        Inl e \<Rightarrow> Inl e
      | Inr label \<Rightarrow>
          (case chartData_from parseISO format ps (Suc index) ds of
             Inl e \<Rightarrow> Inl e
           | Inr rest \<Rightarrow>
               Inr (\<lparr> cp_date = parseISO date, cp_price = js_index ps index, formattedDate = label \<rparr> # rest)))"

definition chartData ::
  "(string \<Rightarrow> js_date) \<Rightarrow> (js_date \<Rightarrow> js_error + string) \<Rightarrow> string list \<Rightarrow> real list
    \<Rightarrow> js_error + chart_point list" where
  "chartData parseISO format ds ps = chartData_from parseISO format ps 0 ds"

text \<open>
  \<^verbatim>\<open>
  const eventMarkers = events.map(event => {
    const eventDate = parseISO(event.date);
    const pricePoint = chartData.find(d =>
      d.date.getFullYear() === eventDate.getFullYear() &&
      d.date.getMonth() === eventDate.getMonth()
    );
    return pricePoint ? {
      ...event,
      chartDate: pricePoint.date,
      chartPrice: pricePoint.price,
      x: chartData.indexOf(pricePoint),
      y: pricePoint.price
    } : null;
  }).filter(Boolean);
  \<close>
  \<^verbatim>\<open>find\<close> returns the first element that satisfies the test, and
  \<^verbatim>\<open>indexOf\<close> of that very object is its position.
\<close>

definition sameMonth :: "js_date \<Rightarrow> js_date \<Rightarrow> bool" where
  "sameMonth d eventDate \<longleftrightarrow>
     strict_eq (getFullYear d) (getFullYear eventDate) \<and> strict_eq (getMonth d) (getMonth eventDate)"

fun find_from :: "('a \<Rightarrow> bool) \<Rightarrow> nat \<Rightarrow> 'a list \<Rightarrow> (nat \<times> 'a) option" where
  "find_from P i [] = None"
| "find_from P i (x # xs) = (if P x then Some (i, x) else find_from P (Suc i) xs)"

definition pricePoint :: "(string \<Rightarrow> js_date) \<Rightarrow> event \<Rightarrow> chart_point list \<Rightarrow> (nat \<times> chart_point) option" where
  "pricePoint parseISO ev cd = find_from (\<lambda>d. sameMonth (cp_date d) (parseISO (ev_date ev))) 0 cd"

definition eventMarkers :: "(string \<Rightarrow> js_date) \<Rightarrow> event list \<Rightarrow> chart_point list \<Rightarrow> event_marker list" where
  "eventMarkers parseISO events cd =
     List.map_filter
       (\<lambda>ev. case pricePoint parseISO ev cd of
               None \<Rightarrow> None
             | Some (i, p) \<Rightarrow>
                 Some \<lparr> m_event = ev, chartDate = cp_date p, chartPrice = cp_price p,
                        m_x = i, m_y = cp_price p \<rparr>)
       events"

section \<open>The analysis core behind the API\<close>

text \<open>
  The price store, the returns engine and the impact and correlation analysers
  run in the backend, whose code is not among the sources: only its callers
  (the requests of the frontend above) are. Each operation below is therefore
  written from the specification. A calendar date is the number of its day, so
  that \<open>date - windowDays\<close> is subtraction; a price is a real number.
\<close>

text \<open>
  Modelled from the spec: the error kinds of the core (section 7), declared in the missing backend.
\<close>

datatype core_error = DataFormatError | ComputationError | NotFoundError

text \<open>
  Modelled from the spec: a \<^verbatim>\<open>PricePoint\<close>, a date and a price.
\<close>

record price_point =
  pp_date :: int
  pp_price :: real

text \<open>
  Modelled from the spec: the invariant of a loaded \<^verbatim>\<open>TimeSeries\<close> (the loader
  is missing): dates strictly increasing, no duplicates, prices positive.
\<close>

definition loaded :: "price_point list \<Rightarrow> bool" where
  "loaded s \<longleftrightarrow> sorted_wrt (<) (map pp_date s) \<and> list_all (\<lambda>p. 0 < pp_price p) s"

subsection \<open>TimeSeriesStore\<close>

text \<open>
  Modelled from the spec: the bounds of the data, \<^verbatim>\<open>min_date\<close> and
  \<^verbatim>\<open>max_date\<close>, of a series that is not empty.
\<close>

definition min_date :: "price_point list \<Rightarrow> int" where
  "min_date s = Min (set (map pp_date s))"

definition max_date :: "price_point list \<Rightarrow> int" where
  "max_date s = Max (set (map pp_date s))"

text \<open>
  Modelled from the spec: the clamping of an endpoint that falls outside the
  data's bounds to the nearest valid bound.
\<close>

definition clamp :: "price_point list \<Rightarrow> int \<Rightarrow> int" where
  "clamp s d = max (min_date s) (min (max_date s) d)"

text \<open>
  Modelled from the spec: \<^verbatim>\<open>TimeSeriesStore.slice(start, end)\<close>, missing from the
  sources: the points with date in \<open>[start, end]\<close>, both endpoints clamped. An
  empty series has no bounds and slices to itself.
\<close>

definition slice :: "int \<Rightarrow> int \<Rightarrow> price_point list \<Rightarrow> price_point list" where
  "slice start end s =
     (if s = [] then []
      else filter (\<lambda>p. clamp s start \<le> pp_date p \<and> pp_date p \<le> clamp s end) s)"

text \<open>
  Modelled from the spec: the granularities of \<^verbatim>\<open>resample\<close>.
\<close>

datatype granularity = Daily | Weekly | Monthly | Quarterly | Yearly

text \<open>
  Modelled from the spec: the calendar that tells in which week, month,
  quarter and year a day lies (the specification names the periods and leaves
  their boundaries to the calendar); a day is its own daily period.
\<close>

record calendar =
  week_of :: "int \<Rightarrow> int"
  month_of :: "int \<Rightarrow> int"
  quarter_of :: "int \<Rightarrow> int"
  year_of :: "int \<Rightarrow> int"

text \<open>
  Modelled from the spec: the period in which a day lies at a granularity.
\<close>

fun period :: "calendar \<Rightarrow> granularity \<Rightarrow> int \<Rightarrow> int" where
  "period cal Daily d = d"
| "period cal Weekly d = week_of cal d"
| "period cal Monthly d = month_of cal d"
| "period cal Quarterly d = quarter_of cal d"
| "period cal Yearly d = year_of cal d"

text \<open>
  Modelled from the spec: \<^verbatim>\<open>TimeSeriesStore.resample(series, granularity)\<close>,
  missing from the sources: the last observation of each period. A point is
  kept when no later point of the series lies in its period.
\<close>

fun resample_by :: "(int \<Rightarrow> int) \<Rightarrow> price_point list \<Rightarrow> price_point list" where
  "resample_by key [] = []"
| "resample_by key (p # ps) =
     (if list_ex (\<lambda>q. key (pp_date q) = key (pp_date p)) ps then resample_by key ps
      else p # resample_by key ps)"

text \<open>
  Modelled from the spec: \<^verbatim>\<open>resample\<close> at a granularity of the calendar.
\<close>

definition resample :: "calendar \<Rightarrow> price_point list \<Rightarrow> granularity \<Rightarrow> price_point list" where
  "resample cal series g = resample_by (period cal g) series"

subsection \<open>ReturnsEngine\<close>

text \<open>
  Modelled from the spec: a \<^verbatim>\<open>ReturnPoint\<close>, without its rolling volatility (see below).
\<close>

record return_point =
  rp_date :: int
  simple_return :: real
  log_return :: real

text \<open>
  Modelled from the spec: \<^verbatim>\<open>ReturnsEngine.computeReturns(series)\<close>, missing from
  the sources. The first point has no return; a point whose previous price is
  zero or negative is a \<^verbatim>\<open>ComputationError\<close> for that point. The rolling
  volatility of a return point is the work of \<^verbatim>\<open>rollingVolatility\<close> and is not
  part of this record.
\<close>

fun computeReturns :: "price_point list \<Rightarrow> (core_error + return_point) list" where
  "computeReturns (p # q # ps) =
     (if pp_price p \<le> 0 then Inl ComputationError
      else Inr \<lparr> rp_date = pp_date q,
                 simple_return = (pp_price q - pp_price p) / pp_price p,
                 log_return = ln (pp_price q / pp_price p) \<rparr>)
     # computeReturns (q # ps)"
| "computeReturns [p] = []"
| "computeReturns [] = []"

subsection \<open>ImpactAnalyzer\<close>

text \<open>
  Modelled from the spec: an \<^verbatim>\<open>Event\<close> of the catalog, with the fields the analysis reads.
\<close>

record core_event =
  ce_date :: int
  ce_title :: string
  ce_type :: string

text \<open>
  Modelled from the spec: an \<^verbatim>\<open>ImpactResult\<close>, without the volatility fields and the
  significance (see \<open>analyze\<close> below), with the degraded-confidence flag. The
  type \<open>'n\<close> is the type of its three values: real numbers in a ranked
  table, and optional real numbers in the result of \<open>analyze\<close>, where an average
  over a window without points, and a percent change that has no value, are
  \<^term>\<open>None\<close>: the analysis does not fail on them.
\<close>

record 'n impact_result =
  ir_event :: core_event
  window_days :: int
  pre_avg :: 'n
  post_avg :: 'n
  percent_change :: 'n
  degraded :: bool

text \<open>
  Modelled from the spec: the mean price of a window; a window without points
  has none.
\<close>

definition mean :: "real list \<Rightarrow> real option" where
  "mean xs = (if xs = [] then None else Some (sum_list xs / real (length xs)))"

text \<open>
  Modelled from the spec: the two windows of \<^verbatim>\<open>ImpactAnalyzer.analyze\<close>, the
  prices over \<open>[event.date - windowDays, event.date)\<close> and over
  \<open>(event.date, event.date + windowDays]\<close>.
\<close>

definition pre_window :: "core_event \<Rightarrow> int \<Rightarrow> price_point list \<Rightarrow> real list" where
  "pre_window e w s =
     map pp_price (filter (\<lambda>p. ce_date e - w \<le> pp_date p \<and> pp_date p < ce_date e) s)"

definition post_window :: "core_event \<Rightarrow> int \<Rightarrow> price_point list \<Rightarrow> real list" where
  "post_window e w s =
     map pp_price (filter (\<lambda>p. ce_date e < pp_date p \<and> pp_date p \<le> ce_date e + w) s)"

text \<open>
  Modelled from the spec: \<open>percent_change = (post_avg - pre_avg) / pre_avg * 100\<close>,
  which has a value when both averages exist and \<open>pre_avg\<close> is not zero.
\<close>

fun percent_of :: "real option \<Rightarrow> real option \<Rightarrow> real option" where
  "percent_of (Some pre) (Some post) = (if pre = 0 then None else Some ((post - pre) / pre * 100))"
| "percent_of pre post = None"

text \<open>
  Modelled from the spec: \<^verbatim>\<open>ImpactAnalyzer.analyze(event, windowDays, series, returns)\<close>,
  missing from the sources. It returns a result for every event and window:
  when a side window has fewer than \<open>windowDays / 2\<close> points the result
  carries the degraded-confidence flag rather than failing. The volatility
  fields and the significance, which are computed from the returns, are not
  modelled.
\<close>

definition analyze :: "core_event \<Rightarrow> int \<Rightarrow> price_point list \<Rightarrow> real option impact_result" where
  "analyze e w s =
     \<lparr> ir_event = e, window_days = w,
       pre_avg = mean (pre_window e w s),
       post_avg = mean (post_window e w s),
       percent_change = percent_of (mean (pre_window e w s)) (mean (post_window e w s)),
       degraded = (2 * int (length (pre_window e w s)) < w
                   \<or> 2 * int (length (post_window e w s)) < w) \<rparr>"

subsection \<open>CorrelationAnalyzer\<close>

text \<open>
  Modelled from the spec: the aggregation loop of \<^verbatim>\<open>CorrelationAnalyzer\<close>,
  missing from the sources: every event is analysed; a failing analysis is
  left out and counted, the others are collected.
\<close>

fun collect ::
  "('e \<Rightarrow> core_error + real impact_result) \<Rightarrow> 'e list \<Rightarrow> real impact_result list \<times> nat" where
  "collect analyse [] = ([], 0)"
| "collect analyse (e # es) =
     (case collect analyse es of
        (results, omitted) \<Rightarrow>
          (case analyse e of
             Inl err \<Rightarrow> (results, Suc omitted)
           | Inr r \<Rightarrow> (r # results, omitted)))"

text \<open>
  Modelled from the spec: the order of the ranked table, descending by
  \<open>|percent_change|\<close>, ties broken by ascending date.
\<close>

definition rank_key :: "real impact_result \<Rightarrow> real \<times> int" where
  "rank_key r = (- \<bar>percent_change r\<bar>, ce_date (ir_event r))"

text \<open>
  Modelled from the spec: the ranked table of \<^verbatim>\<open>CorrelationAnalyzer\<close> together
  with the count of omitted entries, for any per-event analysis.
\<close>

definition rank_tolerant ::
  "('e \<Rightarrow> core_error + real impact_result) \<Rightarrow> 'e list \<Rightarrow> real impact_result list \<times> nat" where
  "rank_tolerant analyse events =
     (case collect analyse events of (results, omitted) \<Rightarrow> (sort_key rank_key results, omitted))"

section \<open>Properties\<close>

text \<open>
  C10. The chart series has length \<open>min |dates| |prices|\<close>, its \<open>i\<close>-th entry
  pairs \<open>dates[i]\<close> with \<open>prices[i]\<close>, and no entry holds an undefined date or
  price, whatever the lengths of the two arrays.
\<close>

theorem priceSeries_pairs:
  "length (priceSeries fmt payload) = min (length (dates_of payload)) (length (prices_of payload))
   \<and> (\<forall>i < min (length (dates_of payload)) (length (prices_of payload)).
        priceSeries fmt payload ! i =
          \<lparr> pe_date = Some (dates_of payload ! i),
            pe_dateLabel = fmt (Some (dates_of payload ! i)),
            pe_price = Some (prices_of payload ! i) \<rparr>)
   \<and> (\<forall>e \<in> set (priceSeries fmt payload). pe_date e \<noteq> None \<and> pe_price e \<noteq> None)"
  by (auto simp: priceSeries_def Let_def js_index_def)

theorem priceSeries_pairs_witness:
  "priceSeries (\<lambda>d. ''x'') (Some \<lparr> dates = Some [''2020-01-01'', ''2020-01-02'', ''2020-01-03''],
                                   prices = Some [10, 20] \<rparr>) ! 1 =
     \<lparr> pe_date = Some ''2020-01-02'', pe_dateLabel = ''x'', pe_price = Some 20 \<rparr>
   \<and> length (priceSeries (\<lambda>d. ''x'') (Some \<lparr> dates = Some [''2020-01-01'', ''2020-01-02'', ''2020-01-03''],
                                   prices = Some [10, 20] \<rparr>)) = 2"
  using priceSeries_pairs [of "\<lambda>d. ''x''"
      "Some \<lparr> dates = Some [''2020-01-01'', ''2020-01-02'', ''2020-01-03''], prices = Some [10, 20] \<rparr>"]
  by (simp add: dates_of_def prices_of_def or_empty_def)

lemma js_round_not_NaN: "js_round rnd x \<noteq> NaN"
  by (simp add: js_round_def)

lemma js_add_not_NaN: "a \<noteq> NaN \<Longrightarrow> is_finite b \<Longrightarrow> js_add rnd a b \<noteq> NaN"
  by (cases a; cases b) (simp_all add: js_round_not_NaN)

lemma foldl_js_add_not_NaN:
  "a \<noteq> NaN \<Longrightarrow> list_all is_finite xs \<Longrightarrow> foldl (js_add rnd) a xs \<noteq> NaN"
  by (induction xs arbitrary: a) (simp_all add: js_add_not_NaN)

lemma js_div_not_NaN: "a \<noteq> NaN \<Longrightarrow> n \<noteq> 0 \<Longrightarrow> js_div rnd a n \<noteq> NaN"
  by (cases a) (simp_all add: js_round_not_NaN)

text \<open>
  C9. The average volatility is computed, as the sum divided by the length,
  exactly when the array is not empty, and the divisor is then not zero; a
  missing or empty array yields \<^verbatim>\<open>null\<close>, where the unguarded quotient
  \<open>0/0\<close> would be NaN. For an array of finite numbers the result is never
  NaN (it can be an infinity when the sum overflows).
\<close>

theorem avgVolatility_total:
  "(or_empty v \<noteq> [] \<longrightarrow>
      avgVolatility rnd v
        = Some (js_div rnd (foldl (js_add rnd) (Finite 0) (or_empty v)) (length (or_empty v)))
      \<and> length (or_empty v) \<noteq> 0)
   \<and> (or_empty v = [] \<longrightarrow> avgVolatility rnd v = None)
   \<and> js_div rnd (foldl (js_add rnd) (Finite 0) []) (length ([] :: js_number list)) = NaN
   \<and> (list_all is_finite (or_empty v) \<longrightarrow> avgVolatility rnd v \<noteq> Some NaN)"
proof -
  have "avgVolatility rnd v \<noteq> Some NaN" if f: "list_all is_finite (or_empty v)"
  proof (cases "or_empty v = []")
    case True
    then show ?thesis by (simp add: avgVolatility_def)
  next
    case False
    have "foldl (js_add rnd) (Finite 0) (or_empty v) \<noteq> NaN"
      by (rule foldl_js_add_not_NaN [OF _ f]) simp
    then have "js_div rnd (foldl (js_add rnd) (Finite 0) (or_empty v)) (length (or_empty v)) \<noteq> NaN"
      using False by (intro js_div_not_NaN) simp_all
    then show ?thesis using False by (simp add: avgVolatility_def Let_def)
  qed
  then show ?thesis
    by (simp add: avgVolatility_def Let_def)
qed

lemma max_value_bounds: "2 ^ 1023 \<le> max_value" "max_value < 2 * 2 ^ 1023"
proof -
  define p :: real where "p = 2 ^ 1023"
  have p: "0 < p" by (simp add: p_def)
  have c: "1 \<le> (2 - 1 / 2 ^ 52 :: real)" "(2 - 1 / 2 ^ 52 :: real) < 2" by simp_all
  have m: "max_value = (2 - 1 / 2 ^ 52) * p" by (simp only: max_value_def p_def)
  from c(1) p have "1 * p \<le> (2 - 1 / 2 ^ 52) * p" by (intro mult_right_mono) simp_all
  then show "2 ^ 1023 \<le> max_value" unfolding m by (simp only: p_def mult_1)
  from c(2) p have "(2 - 1 / 2 ^ 52) * p < 2 * p" by (intro mult_strict_right_mono)
  then show "max_value < 2 * 2 ^ 1023" unfolding m by (simp only: p_def)
qed

lemma small_in_range: "\<bar>x\<bar> \<le> 1000 \<Longrightarrow> js_round (\<lambda>x. x) x = Finite x"
proof -
  assume a: "\<bar>x\<bar> \<le> 1000"
  have "(2 :: real) ^ 10 \<le> 2 ^ 1023" by (rule power_increasing) simp_all
  then have "(1000 :: real) \<le> 2 ^ 1023" by (simp only: power_numeral) simp
  with max_value_bounds(1) have "(1000 :: real) \<le> max_value" by linarith
  with a show ?thesis by (auto simp: js_round_def)
qed

theorem avgVolatility_total_witness:
  "avgVolatility (\<lambda>x. x) (Some [Finite 1, Finite 2, Finite 6]) = Some (Finite 3)
   \<and> avgVolatility (\<lambda>x. x) (Some []) = None
   \<and> avgVolatility (\<lambda>x. x) None = None"
proof -
  from avgVolatility_total [of "Some [Finite 1, Finite 2, Finite 6]" "\<lambda>x. x"]
  have 1: "avgVolatility (\<lambda>x. x) (Some [Finite 1, Finite 2, Finite 6]) = Some (Finite 3)"
    by (simp add: or_empty_def small_in_range)
  from avgVolatility_total [of "Some []" "\<lambda>x. x"]
  have 2: "avgVolatility (\<lambda>x. x) (Some []) = None"
    by (simp add: or_empty_def)
  from avgVolatility_total [of None "\<lambda>x. x"]
  have 3: "avgVolatility (\<lambda>x. x) None = None"
    by (simp add: or_empty_def)
  from 1 2 3 show ?thesis by simp
qed

lemma avgVolatility_overflow:
  "avgVolatility (\<lambda>x. x) (Some [Finite (2 ^ 1023), Finite (2 ^ 1023)]) = Some PosInfinity"
proof -
  define p :: real where "p = 2 ^ 1023"
  have p: "0 < p" by (simp add: p_def)
  from max_value_bounds have b: "p \<le> max_value" "max_value < 2 * p" by (simp_all only: p_def)
  from p b have 1: "js_round (\<lambda>x. x) p = Finite p" by (auto simp: js_round_def)
  from b have 2: "js_round (\<lambda>x. x) (2 * p) = PosInfinity" by (simp add: js_round_def)
  have "avgVolatility (\<lambda>x. x) (Some [Finite p, Finite p]) = Some PosInfinity"
    by (simp add: avgVolatility_def or_empty_def 1 2)
  then show ?thesis by (simp only: p_def)
qed

lemma avgVolatility_infinities:
  "avgVolatility rnd (Some [PosInfinity, NegInfinity]) = Some NaN"
  by (simp add: avgVolatility_def or_empty_def)

lemma criticalErrors_empty_iff:
  "criticalErrors rs = [] \<longleftrightarrow> \<not> rejected (pricesResult rs) \<and> \<not> rejected (eventsResult rs)"
  by (simp add: criticalErrors_def errors_def)

lemma value_or_rejected: "rejected r \<Longrightarrow> value_or dflt r = dflt"
  by (cases r) simp_all

lemma value_or_null_rejected: "rejected r \<Longrightarrow> value_or_null r = JNull"
  by (cases r) simp_all

lemma list_or_empty_rejected: "rejected r \<Longrightarrow> list_or_empty name r = JArr []"
  by (cases r) simp_all

text \<open>
  C8. The page-level error is set exactly when the prices or the events request
  is rejected: a rejected summary, change-point, volatility or correlation
  request does not set it, and the section of a rejected non-critical request
  falls back to its empty default (\<^verbatim>\<open>null\<close> or the empty array) while
  the data is still stored and loading ends. The prices and events sections
  hold the fulfilled body when it is truthy and the empty payload otherwise.
\<close>

theorem fetchAllData_error_only_critical:
  "(error (fetchAllData now rs st) \<noteq> None \<longleftrightarrow>
      rejected (pricesResult rs) \<or> rejected (eventsResult rs))
   \<and> (rejected (summaryResult rs) \<longrightarrow> d_analysis (data (fetchAllData now rs st)) = JNull)
   \<and> (rejected (cpResult rs) \<longrightarrow> d_changePoints (data (fetchAllData now rs st)) = JArr [])
   \<and> (rejected (volResult rs) \<longrightarrow> d_volatility (data (fetchAllData now rs st)) = JNull)
   \<and> (rejected (corrResult rs) \<longrightarrow> d_correlations (data (fetchAllData now rs st)) = JArr [])
   \<and> (rejected (pricesResult rs) \<longrightarrow> d_prices (data (fetchAllData now rs st)) = emptyPrices)
   \<and> (rejected (eventsResult rs) \<longrightarrow> d_events (data (fetchAllData now rs st)) = emptyEvents)
   \<and> (\<forall>v. pricesResult rs = Fulfilled v \<longrightarrow>
        d_prices (data (fetchAllData now rs st)) = (if truthy v then v else emptyPrices))
   \<and> (\<forall>v. eventsResult rs = Fulfilled v \<longrightarrow>
        d_events (data (fetchAllData now rs st)) = (if truthy v then v else emptyEvents))
   \<and> data (fetchAllData now rs st) = nextData rs
   \<and> \<not> loading (fetchAllData now rs st)"
proof -
  have e: "error (fetchAllData now rs st) \<noteq> None \<longleftrightarrow> criticalErrors rs \<noteq> []"
    by (simp add: fetchAllData_def Let_def)
  have d: "data (fetchAllData now rs st) = nextData rs"
    by (simp add: fetchAllData_def Let_def)
  have l: "\<not> loading (fetchAllData now rs st)"
    by (simp add: fetchAllData_def Let_def)
  show ?thesis
    using e d l
    by (simp add: criticalErrors_empty_iff nextData_def value_or_rejected value_or_null_rejected
        list_or_empty_rejected)
qed

theorem fetchAllData_error_only_critical_witness:
  "error (fetchAllData ''t''
      \<lparr> pricesResult = Fulfilled (JObj [(''dates'', JArr [JStr ''2020-01-01'']), (''prices'', JArr [JNum (Finite 60)])]),
        eventsResult = Fulfilled (JNum (Finite 0)),
        summaryResult = Rejected, cpResult = Rejected, volResult = Rejected, corrResult = Rejected \<rparr>
      \<lparr> loading = False, error = Some ''old'',
        data = \<lparr> d_prices = JNull, d_events = JNull, d_analysis = JStr ''a'', d_changePoints = JArr [JNull],
                 d_volatility = JStr ''v'', d_correlations = JArr [JNull] \<rparr>,
        lastUpdated = None \<rparr>) = None
   \<and> data (fetchAllData ''t''
      \<lparr> pricesResult = Fulfilled (JObj [(''dates'', JArr [JStr ''2020-01-01'']), (''prices'', JArr [JNum (Finite 60)])]),
        eventsResult = Fulfilled (JNum (Finite 0)),
        summaryResult = Rejected, cpResult = Rejected, volResult = Rejected, corrResult = Rejected \<rparr>
      \<lparr> loading = False, error = Some ''old'',
        data = \<lparr> d_prices = JNull, d_events = JNull, d_analysis = JStr ''a'', d_changePoints = JArr [JNull],
                 d_volatility = JStr ''v'', d_correlations = JArr [JNull] \<rparr>,
        lastUpdated = None \<rparr>)
     = \<lparr> d_prices = JObj [(''dates'', JArr [JStr ''2020-01-01'']), (''prices'', JArr [JNum (Finite 60)])],
         d_events = emptyEvents, d_analysis = JNull, d_changePoints = JArr [],
         d_volatility = JNull, d_correlations = JArr [] \<rparr>"
  using fetchAllData_error_only_critical [of "''t''"
      "\<lparr> pricesResult = Fulfilled (JObj [(''dates'', JArr [JStr ''2020-01-01'']), (''prices'', JArr [JNum (Finite 60)])]),
        eventsResult = Fulfilled (JNum (Finite 0)),
        summaryResult = Rejected, cpResult = Rejected, volResult = Rejected, corrResult = Rejected \<rparr>"
      "\<lparr> loading = False, error = Some ''old'',
        data = \<lparr> d_prices = JNull, d_events = JNull, d_analysis = JStr ''a'', d_changePoints = JArr [JNull],
                 d_volatility = JStr ''v'', d_correlations = JArr [JNull] \<rparr>,
        lastUpdated = None \<rparr>"]
  by (simp add: nextData_def)

lemma find_from_None_iff: "find_from P i xs = None \<longleftrightarrow> (\<forall>x \<in> set xs. \<not> P x)"
  by (induction xs arbitrary: i) auto

lemma find_from_Some:
  "find_from P i xs = Some (j, x) \<Longrightarrow>
     i \<le> j \<and> j - i < length xs \<and> xs ! (j - i) = x \<and> P x \<and> (\<forall>k < j - i. \<not> P (xs ! k))"
proof (induction xs arbitrary: i)
  case Nil
  then show ?case by simp
next
  case (Cons a xs)
  show ?case
  proof (cases "P a")
    case True
    with Cons.prems show ?thesis by simp
  next
    case False
    with Cons.prems have f: "find_from P (Suc i) xs = Some (j, x)" by simp
    from Cons.IH [OF f] have ih: "Suc i \<le> j" "j - Suc i < length xs" "xs ! (j - Suc i) = x" "P x"
      "\<forall>k < j - Suc i. \<not> P (xs ! k)" by auto
    from ih(1) have e: "j - i = Suc (j - Suc i)" by simp
    have "\<not> P ((a # xs) ! k)" if "k < j - i" for k
      using that False ih(5) e by (cases k) auto
    with ih e show ?thesis by auto
  qed
qed

lemma sameMonth_valid: "sameMonth (ValidDate y m d) (ValidDate y' m' d') \<longleftrightarrow> y = y' \<and> m = m'"
  by (simp add: sameMonth_def strict_eq_def)

lemma sameMonth_invalid: "\<not> sameMonth d InvalidDate" "\<not> sameMonth InvalidDate d"
  by (simp_all add: sameMonth_def strict_eq_def split: option.splits)

lemma eventMarkers_event_iff:
  "ev \<in> m_event ` set (eventMarkers parseISO evs cd) \<longleftrightarrow>
     ev \<in> set evs \<and> pricePoint parseISO ev cd \<noteq> None"
  by (force simp: eventMarkers_def map_filter_def image_iff split: option.splits prod.splits)


lemma eventMarkers_Cons:
  "eventMarkers parseISO (ev # evs) cd =
     (case pricePoint parseISO ev cd of
        None \<Rightarrow> eventMarkers parseISO evs cd
      | Some (i, p) \<Rightarrow>
          \<lparr> m_event = ev, chartDate = cp_date p, chartPrice = cp_price p, m_x = i, m_y = cp_price p \<rparr>
          # eventMarkers parseISO evs cd)"
  by (simp add: eventMarkers_def map_filter_simps split: option.splits prod.splits)

lemma eventMarkers_Nil: "eventMarkers parseISO [] cd = []"
  by (simp add: eventMarkers_def map_filter_simps)

lemma eventMarkers_events:
  "map m_event (eventMarkers parseISO evs cd) = filter (\<lambda>ev. pricePoint parseISO ev cd \<noteq> None) evs"
  by (induction evs) (auto simp: eventMarkers_Nil eventMarkers_Cons split: option.splits prod.splits)

lemma eventMarkers_point:
  "m \<in> set (eventMarkers parseISO evs cd) \<Longrightarrow>
     m_event m \<in> set evs
     \<and> pricePoint parseISO (m_event m) cd = Some (m_x m, cd ! m_x m)
     \<and> chartDate m = cp_date (cd ! m_x m) \<and> chartPrice m = cp_price (cd ! m_x m)
     \<and> m_y m = cp_price (cd ! m_x m)"
proof (induction evs)
  case Nil
  then show ?case by (simp add: eventMarkers_Nil)
next
  case (Cons ev evs)
  show ?case
  proof (cases "pricePoint parseISO ev cd")
    case None
    with Cons show ?thesis by (simp add: eventMarkers_Cons)
  next
    case (Some ip)
    obtain i p where ip: "ip = (i, p)" by (cases ip)
    from Some ip have f: "find_from (\<lambda>d. sameMonth (cp_date d) (parseISO (ev_date ev))) 0 cd = Some (i, p)"
      by (simp add: pricePoint_def)
    from find_from_Some [OF f] have p: "cd ! i = p" by simp
    from Cons Some ip p show ?thesis by (auto simp: eventMarkers_Cons)
  qed
qed

text \<open>
  C2. The price point chosen for an event is the first point of the series in
  the event's calendar month (same year and same month); there is none exactly
  when no point of the series lies in that month; hence an event gets a marker
  if and only if some series point shares its year and month, the markers
  follow the order of these events, and each marker carries the date, the
  price and the position of the point chosen for its event.
\<close>

theorem pricePoint_same_month:
  "(\<forall>i p. pricePoint parseISO ev cd = Some (i, p) \<longrightarrow>
       i < length cd \<and> cd ! i = p \<and> sameMonth (cp_date p) (parseISO (ev_date ev))
       \<and> (\<forall>k < i. \<not> sameMonth (cp_date (cd ! k)) (parseISO (ev_date ev))))
   \<and> (pricePoint parseISO ev cd = None \<longleftrightarrow>
        \<not> (\<exists>p \<in> set cd. sameMonth (cp_date p) (parseISO (ev_date ev))))
   \<and> (ev \<in> m_event ` set (eventMarkers parseISO evs cd) \<longleftrightarrow>
        ev \<in> set evs \<and> (\<exists>p \<in> set cd. sameMonth (cp_date p) (parseISO (ev_date ev))))
   \<and> map m_event (eventMarkers parseISO evs cd)
       = filter (\<lambda>ev. \<exists>p \<in> set cd. sameMonth (cp_date p) (parseISO (ev_date ev))) evs
   \<and> (\<forall>m \<in> set (eventMarkers parseISO evs cd).
        m_event m \<in> set evs
        \<and> pricePoint parseISO (m_event m) cd = Some (m_x m, cd ! m_x m)
        \<and> m_x m < length cd
        \<and> chartDate m = cp_date (cd ! m_x m)
        \<and> chartPrice m = cp_price (cd ! m_x m)
        \<and> m_y m = cp_price (cd ! m_x m)
        \<and> sameMonth (chartDate m) (parseISO (ev_date (m_event m)))
        \<and> (\<forall>k < m_x m. \<not> sameMonth (cp_date (cd ! k)) (parseISO (ev_date (m_event m)))))
   \<and> (sameMonth (ValidDate y m d) (ValidDate y' m' d') \<longleftrightarrow> y = y' \<and> m = m')"
proof -
  have a: "i < length cd \<and> cd ! i = p \<and> sameMonth (cp_date p) (parseISO (ev_date e))
      \<and> (\<forall>k < i. \<not> sameMonth (cp_date (cd ! k)) (parseISO (ev_date e)))"
    if "pricePoint parseISO e cd = Some (i, p)" for i p e
    using find_from_Some [OF that [unfolded pricePoint_def]] by simp
  have b: "pricePoint parseISO e cd = None \<longleftrightarrow>
        \<not> (\<exists>p \<in> set cd. sameMonth (cp_date p) (parseISO (ev_date e)))" for e
    by (simp add: pricePoint_def find_from_None_iff)
  have c: "map m_event (eventMarkers parseISO evs cd)
       = filter (\<lambda>ev. \<exists>p \<in> set cd. sameMonth (cp_date p) (parseISO (ev_date ev))) evs"
    using eventMarkers_events [of parseISO evs cd] by (simp add: b)
  have d: "m_event m \<in> set evs
        \<and> pricePoint parseISO (m_event m) cd = Some (m_x m, cd ! m_x m)
        \<and> m_x m < length cd
        \<and> chartDate m = cp_date (cd ! m_x m)
        \<and> chartPrice m = cp_price (cd ! m_x m)
        \<and> m_y m = cp_price (cd ! m_x m)
        \<and> sameMonth (chartDate m) (parseISO (ev_date (m_event m)))
        \<and> (\<forall>k < m_x m. \<not> sameMonth (cp_date (cd ! k)) (parseISO (ev_date (m_event m))))"
    if "m \<in> set (eventMarkers parseISO evs cd)" for m
  proof -
    from eventMarkers_point [OF that]
    have p: "m_event m \<in> set evs" "pricePoint parseISO (m_event m) cd = Some (m_x m, cd ! m_x m)"
      "chartDate m = cp_date (cd ! m_x m)" "chartPrice m = cp_price (cd ! m_x m)"
      "m_y m = cp_price (cd ! m_x m)" by simp_all
    from a [OF p(2)] p show ?thesis by simp
  qed
  have A: "\<forall>i p. pricePoint parseISO ev cd = Some (i, p) \<longrightarrow>
       i < length cd \<and> cd ! i = p \<and> sameMonth (cp_date p) (parseISO (ev_date ev))
       \<and> (\<forall>k < i. \<not> sameMonth (cp_date (cd ! k)) (parseISO (ev_date ev)))"
    using a [of ev] by blast
  have C: "ev \<in> m_event ` set (eventMarkers parseISO evs cd) \<longleftrightarrow>
        ev \<in> set evs \<and> (\<exists>p \<in> set cd. sameMonth (cp_date p) (parseISO (ev_date ev)))"
    by (simp add: eventMarkers_event_iff b)
  have E: "\<forall>m \<in> set (eventMarkers parseISO evs cd).
        m_event m \<in> set evs
        \<and> pricePoint parseISO (m_event m) cd = Some (m_x m, cd ! m_x m)
        \<and> m_x m < length cd
        \<and> chartDate m = cp_date (cd ! m_x m)
        \<and> chartPrice m = cp_price (cd ! m_x m)
        \<and> m_y m = cp_price (cd ! m_x m)
        \<and> sameMonth (chartDate m) (parseISO (ev_date (m_event m)))
        \<and> (\<forall>k < m_x m. \<not> sameMonth (cp_date (cd ! k)) (parseISO (ev_date (m_event m))))"
    using d by blast
  show ?thesis
    using A b [of ev] C c E sameMonth_valid [of y m d y' m' d'] by (intro conjI)
qed

theorem pricePoint_same_month_witness:
  "eventMarkers (\<lambda>s. if s = ''2020-03-11'' then ValidDate 2020 2 11 else InvalidDate)
      [\<lparr> ev_date = ''unknown'', ev_title = ''Undated'', ev_type = ''other'' \<rparr>,
       \<lparr> ev_date = ''2020-03-11'', ev_title = ''Pandemic'', ev_type = ''health'' \<rparr>]
      [\<lparr> cp_date = ValidDate 2020 1 3, cp_price = Some 55, formattedDate = ''Feb 2020'' \<rparr>,
       \<lparr> cp_date = ValidDate 2020 2 2, cp_price = Some 50, formattedDate = ''Mar 2020'' \<rparr>,
       \<lparr> cp_date = ValidDate 2020 2 9, cp_price = Some 40, formattedDate = ''Mar 2020'' \<rparr>]
     = [\<lparr> m_event = \<lparr> ev_date = ''2020-03-11'', ev_title = ''Pandemic'', ev_type = ''health'' \<rparr>,
          chartDate = ValidDate 2020 2 2, chartPrice = Some 50, m_x = 1, m_y = Some 50 \<rparr>]
   \<and> pricePoint (\<lambda>s. if s = ''2020-03-11'' then ValidDate 2020 2 11 else InvalidDate)
      \<lparr> ev_date = ''2020-03-11'', ev_title = ''Pandemic'', ev_type = ''health'' \<rparr>
      [\<lparr> cp_date = ValidDate 2020 1 3, cp_price = Some 55, formattedDate = ''Feb 2020'' \<rparr>,
       \<lparr> cp_date = ValidDate 2020 2 2, cp_price = Some 50, formattedDate = ''Mar 2020'' \<rparr>,
       \<lparr> cp_date = ValidDate 2020 2 9, cp_price = Some 40, formattedDate = ''Mar 2020'' \<rparr>]
     = Some (1, \<lparr> cp_date = ValidDate 2020 2 2, cp_price = Some 50, formattedDate = ''Mar 2020'' \<rparr>)
   \<and> sameMonth (ValidDate 2020 2 2) (ValidDate 2020 2 11)"
proof -
  let ?parse = "(\<lambda>s. if s = ''2020-03-11'' then ValidDate 2020 2 11 else InvalidDate)"
  let ?evs = "[\<lparr> ev_date = ''unknown'', ev_title = ''Undated'', ev_type = ''other'' \<rparr>,
       \<lparr> ev_date = ''2020-03-11'', ev_title = ''Pandemic'', ev_type = ''health'' \<rparr>]"
  let ?cd = "[\<lparr> cp_date = ValidDate 2020 1 3, cp_price = Some 55, formattedDate = ''Feb 2020'' \<rparr>,
       \<lparr> cp_date = ValidDate 2020 2 2, cp_price = Some 50, formattedDate = ''Mar 2020'' \<rparr>,
       \<lparr> cp_date = ValidDate 2020 2 9, cp_price = Some 40, formattedDate = ''Mar 2020'' \<rparr>]"
  let ?ev = "\<lparr> ev_date = ''2020-03-11'', ev_title = ''Pandemic'', ev_type = ''health'' \<rparr>"
  have f: "filter (\<lambda>ev. \<exists>p \<in> set ?cd. sameMonth (cp_date p) (?parse (ev_date ev))) ?evs = [?ev]"
    by (simp add: sameMonth_def strict_eq_def)
  from pricePoint_same_month [of ?parse ?ev ?cd ?evs 2020 2 2 2020 2 11]
  have names: "map m_event (eventMarkers ?parse ?evs ?cd) = [?ev]"
    and each: "\<forall>m \<in> set (eventMarkers ?parse ?evs ?cd).
        pricePoint ?parse (m_event m) ?cd = Some (m_x m, ?cd ! m_x m)
        \<and> chartDate m = cp_date (?cd ! m_x m) \<and> chartPrice m = cp_price (?cd ! m_x m)
        \<and> m_y m = cp_price (?cd ! m_x m)"
    and sm: "sameMonth (ValidDate 2020 2 2) (ValidDate 2020 2 11)"
    using f by simp_all
  have pp: "pricePoint ?parse ?ev ?cd
     = Some (1, \<lparr> cp_date = ValidDate 2020 2 2, cp_price = Some 50, formattedDate = ''Mar 2020'' \<rparr>)"
    by (simp add: pricePoint_def sameMonth_def strict_eq_def)
  from names obtain m where m: "eventMarkers ?parse ?evs ?cd = [m]" "m_event m = ?ev"
    by (cases "eventMarkers ?parse ?evs ?cd") auto
  from each m pp have "m_x m = 1" "chartDate m = ValidDate 2020 2 2" "chartPrice m = Some 50"
    "m_y m = Some 50" by simp_all
  with m have "eventMarkers ?parse ?evs ?cd
     = [\<lparr> m_event = ?ev, chartDate = ValidDate 2020 2 2, chartPrice = Some 50, m_x = 1, m_y = Some 50 \<rparr>]"
    by (cases m) simp
  with pp sm show ?thesis by simp
qed

lemma rank_sorted: "sorted_wrt (\<lambda>a b. \<bar>price_change b\<bar> \<le> \<bar>price_change a\<bar>) (rank xs)"
proof -
  have "sorted (map (\<lambda>e. - \<bar>price_change e\<bar>) (rank xs))"
    by (simp add: rank_def)
  then show ?thesis
    by (simp add: sorted_wrt_map)
qed

lemma rank_stable: "filter (\<lambda>e. \<bar>price_change e\<bar> = k) (rank xs) = filter (\<lambda>e. \<bar>price_change e\<bar> = k) xs"
proof -
  have "filter (\<lambda>e. - \<bar>price_change e\<bar> = - k) (rank xs) = filter (\<lambda>e. - \<bar>price_change e\<bar> = - k) xs"
    unfolding rank_def by (rule sort_key_stable)
  then show ?thesis by simp
qed

lemma rank_distinct_keys:
  assumes "mset xs = mset ys" and "inj_on (\<lambda>e. \<bar>price_change e\<bar>) (set xs)"
  shows "rank xs = rank ys"
proof -
  have i: "inj_on (\<lambda>e. - \<bar>price_change e\<bar>) (set xs)"
    using assms(2) by (auto simp: inj_on_def)
  have m: "mset xs = mset (rank ys)" using assms(1) by (simp add: rank_def)
  have s: "sorted (map (\<lambda>e. - \<bar>price_change e\<bar>) (rank ys))" by (simp add: rank_def)
  show ?thesis
    unfolding rank_def [of xs] by (rule sort_key_inj_key_eq [OF m i s])
qed


text \<open>
  C3 (as the code has it). The ranked list is a permutation of the input, sorted
  descending by the absolute value of \<open>price_change\<close>; items of equal absolute
  value keep their input order (the date is not compared); and two input
  orders of the same items give the same list when the absolute values are
  pairwise distinct.
\<close>

theorem rank_descending_stable:
  "sorted_wrt (\<lambda>a b. \<bar>price_change b\<bar> \<le> \<bar>price_change a\<bar>) (rank xs)
   \<and> mset (rank xs) = mset xs
   \<and> (\<forall>k. filter (\<lambda>e. \<bar>price_change e\<bar> = k) (rank xs) = filter (\<lambda>e. \<bar>price_change e\<bar> = k) xs)
   \<and> (mset xs = mset ys \<longrightarrow> inj_on (\<lambda>e. \<bar>price_change e\<bar>) (set xs) \<longrightarrow> rank xs = rank ys)"
  using rank_sorted [of xs] rank_stable [of _ xs] rank_distinct_keys [of xs ys]
  by (simp add: rank_def)

theorem rank_descending_stable_witness:
  "mset [\<lparr> i_title = Some ''A'', i_date = ''2020-03-11'', i_dateLabel = ''Mar 20'',
          price_change = 5, i_magnitude = None, i_type = ''t'', i_size = 4 \<rparr>,
         \<lparr> i_title = Some ''C'', i_date = ''2008-09-15'', i_dateLabel = ''Sep 08'',
          price_change = - 7, i_magnitude = None, i_type = ''t'', i_size = 4 \<rparr>]
     = mset [\<lparr> i_title = Some ''C'', i_date = ''2008-09-15'', i_dateLabel = ''Sep 08'',
          price_change = - 7, i_magnitude = None, i_type = ''t'', i_size = 4 \<rparr>,
         \<lparr> i_title = Some ''A'', i_date = ''2020-03-11'', i_dateLabel = ''Mar 20'',
          price_change = 5, i_magnitude = None, i_type = ''t'', i_size = 4 \<rparr>]
   \<and> inj_on (\<lambda>e. \<bar>price_change e\<bar>)
        (set [\<lparr> i_title = Some ''A'', i_date = ''2020-03-11'', i_dateLabel = ''Mar 20'',
          price_change = 5, i_magnitude = None, i_type = ''t'', i_size = 4 \<rparr>,
         \<lparr> i_title = Some ''C'', i_date = ''2008-09-15'', i_dateLabel = ''Sep 08'',
          price_change = - 7, i_magnitude = None, i_type = ''t'', i_size = 4 \<rparr>])
   \<and> rank [\<lparr> i_title = Some ''A'', i_date = ''2020-03-11'', i_dateLabel = ''Mar 20'',
          price_change = 5, i_magnitude = None, i_type = ''t'', i_size = 4 \<rparr>,
         \<lparr> i_title = Some ''C'', i_date = ''2008-09-15'', i_dateLabel = ''Sep 08'',
          price_change = - 7, i_magnitude = None, i_type = ''t'', i_size = 4 \<rparr>]
     = rank [\<lparr> i_title = Some ''C'', i_date = ''2008-09-15'', i_dateLabel = ''Sep 08'',
          price_change = - 7, i_magnitude = None, i_type = ''t'', i_size = 4 \<rparr>,
         \<lparr> i_title = Some ''A'', i_date = ''2020-03-11'', i_dateLabel = ''Mar 20'',
          price_change = 5, i_magnitude = None, i_type = ''t'', i_size = 4 \<rparr>]"
proof -
  have m: "mset [\<lparr> i_title = Some ''A'', i_date = ''2020-03-11'', i_dateLabel = ''Mar 20'',
          price_change = 5, i_magnitude = None, i_type = ''t'', i_size = 4 \<rparr>,
         \<lparr> i_title = Some ''C'', i_date = ''2008-09-15'', i_dateLabel = ''Sep 08'',
          price_change = - 7, i_magnitude = None, i_type = ''t'', i_size = 4 \<rparr>]
     = mset [\<lparr> i_title = Some ''C'', i_date = ''2008-09-15'', i_dateLabel = ''Sep 08'',
          price_change = - 7, i_magnitude = None, i_type = ''t'', i_size = 4 \<rparr>,
         \<lparr> i_title = Some ''A'', i_date = ''2020-03-11'', i_dateLabel = ''Mar 20'',
          price_change = 5, i_magnitude = None, i_type = ''t'', i_size = 4 \<rparr>]"
    by simp
  have i: "inj_on (\<lambda>e. \<bar>price_change e\<bar>)
        (set [\<lparr> i_title = Some ''A'', i_date = ''2020-03-11'', i_dateLabel = ''Mar 20'',
          price_change = 5, i_magnitude = None, i_type = ''t'', i_size = 4 \<rparr>,
         \<lparr> i_title = Some ''C'', i_date = ''2008-09-15'', i_dateLabel = ''Sep 08'',
          price_change = - 7, i_magnitude = None, i_type = ''t'', i_size = 4 \<rparr>])"
    by simp
  from rank_descending_stable [of
      "[\<lparr> i_title = Some ''A'', i_date = ''2020-03-11'', i_dateLabel = ''Mar 20'',
          price_change = 5, i_magnitude = None, i_type = ''t'', i_size = 4 \<rparr>,
         \<lparr> i_title = Some ''C'', i_date = ''2008-09-15'', i_dateLabel = ''Sep 08'',
          price_change = - 7, i_magnitude = None, i_type = ''t'', i_size = 4 \<rparr>]"
      "[\<lparr> i_title = Some ''C'', i_date = ''2008-09-15'', i_dateLabel = ''Sep 08'',
          price_change = - 7, i_magnitude = None, i_type = ''t'', i_size = 4 \<rparr>,
         \<lparr> i_title = Some ''A'', i_date = ''2020-03-11'', i_dateLabel = ''Mar 20'',
          price_change = 5, i_magnitude = None, i_type = ''t'', i_size = 4 \<rparr>]"] m i
  show ?thesis by blast
qed

text \<open>
  Two events whose changes are \<open>5\<close> and \<open>- 5\<close> tie; the list keeps them in the
  order they came in, so the later date can come first and the two input
  orders give two different lists.
\<close>

theorem rank_permutation_counterexample:
  "mset [\<lparr> i_title = Some ''A'', i_date = ''2020-03-11'', i_dateLabel = ''Mar 20'',
          price_change = 5, i_magnitude = None, i_type = ''t'', i_size = 4 \<rparr>,
         \<lparr> i_title = Some ''B'', i_date = ''2008-09-15'', i_dateLabel = ''Sep 08'',
          price_change = - 5, i_magnitude = None, i_type = ''t'', i_size = 4 \<rparr>]
     = mset [\<lparr> i_title = Some ''B'', i_date = ''2008-09-15'', i_dateLabel = ''Sep 08'',
          price_change = - 5, i_magnitude = None, i_type = ''t'', i_size = 4 \<rparr>,
         \<lparr> i_title = Some ''A'', i_date = ''2020-03-11'', i_dateLabel = ''Mar 20'',
          price_change = 5, i_magnitude = None, i_type = ''t'', i_size = 4 \<rparr>]
   \<and> rank [\<lparr> i_title = Some ''A'', i_date = ''2020-03-11'', i_dateLabel = ''Mar 20'',
          price_change = 5, i_magnitude = None, i_type = ''t'', i_size = 4 \<rparr>,
         \<lparr> i_title = Some ''B'', i_date = ''2008-09-15'', i_dateLabel = ''Sep 08'',
          price_change = - 5, i_magnitude = None, i_type = ''t'', i_size = 4 \<rparr>]
     = [\<lparr> i_title = Some ''A'', i_date = ''2020-03-11'', i_dateLabel = ''Mar 20'',
          price_change = 5, i_magnitude = None, i_type = ''t'', i_size = 4 \<rparr>,
         \<lparr> i_title = Some ''B'', i_date = ''2008-09-15'', i_dateLabel = ''Sep 08'',
          price_change = - 5, i_magnitude = None, i_type = ''t'', i_size = 4 \<rparr>]
   \<and> rank [\<lparr> i_title = Some ''A'', i_date = ''2020-03-11'', i_dateLabel = ''Mar 20'',
          price_change = 5, i_magnitude = None, i_type = ''t'', i_size = 4 \<rparr>,
         \<lparr> i_title = Some ''B'', i_date = ''2008-09-15'', i_dateLabel = ''Sep 08'',
          price_change = - 5, i_magnitude = None, i_type = ''t'', i_size = 4 \<rparr>]
     \<noteq> rank [\<lparr> i_title = Some ''B'', i_date = ''2008-09-15'', i_dateLabel = ''Sep 08'',
          price_change = - 5, i_magnitude = None, i_type = ''t'', i_size = 4 \<rparr>,
         \<lparr> i_title = Some ''A'', i_date = ''2020-03-11'', i_dateLabel = ''Mar 20'',
          price_change = 5, i_magnitude = None, i_type = ''t'', i_size = 4 \<rparr>]"
  by (simp add: rank_def)

lemma sum_list_pos_real: "xs \<noteq> [] \<Longrightarrow> list_all (\<lambda>x. 0 < x) xs \<Longrightarrow> 0 < sum_list (xs :: real list)"
proof (induction xs)
  case Nil
  then show ?case by simp
next
  case (Cons x xs)
  then show ?case by (cases xs) (auto intro: add_pos_pos)
qed

lemma mean_pos:
  assumes "xs \<noteq> []" "list_all (\<lambda>x. 0 < x) xs"
  shows "\<exists>a. 0 < a \<and> mean xs = Some a"
  using assms sum_list_pos_real [OF assms] by (simp add: mean_def)

lemma window_pos:
  "list_all (\<lambda>p. 0 < pp_price p) s \<Longrightarrow>
   list_all (\<lambda>x. 0 < x) (pre_window e w s) \<and> list_all (\<lambda>x. 0 < x) (post_window e w s)"
  by (auto simp: pre_window_def post_window_def list_all_iff)

lemma percent_of_alt: "a \<noteq> 0 \<Longrightarrow> percent_of (Some a) (Some b) = Some ((b / a - 1) * 100)"
  by (simp add: diff_divide_distrib)

text \<open>
  C1. For every event and window size the analysis returns a result: its
  \<open>pre_avg\<close> is the mean price over \<open>[event.date - windowDays, event.date)\<close>,
  its \<open>post_avg\<close> the mean price over \<open>(event.date, event.date + windowDays]\<close>
  (none for a window without points), and its \<open>percent_change\<close> is
  \<open>(post_avg - pre_avg) / pre_avg * 100\<close>, which is \<open>(post_avg / pre_avg - 1) * 100\<close>,
  whenever both averages exist and \<open>pre_avg\<close> is not zero, as is the case for
  positive prices and windows that hold a point. For the series 100, 102, 104,
  98, 96 with the event at index 2 and a window of 2 days the averages are
  101 and 97 and the change is \<open>(97 / 101 - 1) * 100\<close>, between -3.97 and -3.95.
\<close>

theorem analyze_windows:
  "ir_event (analyze e w s) = e \<and> window_days (analyze e w s) = w
   \<and> pre_window e w s
       = map pp_price (filter (\<lambda>p. ce_date e - w \<le> pp_date p \<and> pp_date p < ce_date e) s)
   \<and> post_window e w s
       = map pp_price (filter (\<lambda>p. ce_date e < pp_date p \<and> pp_date p \<le> ce_date e + w) s)
   \<and> pre_avg (analyze e w s)
       = (if pre_window e w s = [] then None
          else Some (sum_list (pre_window e w s) / real (length (pre_window e w s))))
   \<and> post_avg (analyze e w s)
       = (if post_window e w s = [] then None
          else Some (sum_list (post_window e w s) / real (length (post_window e w s))))
   \<and> (\<forall>a b. pre_avg (analyze e w s) = Some a \<and> post_avg (analyze e w s) = Some b \<and> a \<noteq> 0 \<longrightarrow>
         percent_change (analyze e w s) = Some ((b - a) / a * 100)
         \<and> percent_change (analyze e w s) = Some ((b / a - 1) * 100))
   \<and> (pre_avg (analyze e w s) = None \<or> post_avg (analyze e w s) = None
        \<or> pre_avg (analyze e w s) = Some 0 \<longrightarrow> percent_change (analyze e w s) = None)
   \<and> (list_all (\<lambda>p. 0 < pp_price p) s \<and> pre_window e w s \<noteq> [] \<and> post_window e w s \<noteq> [] \<longrightarrow>
        (\<exists>a b. 0 < a \<and> pre_avg (analyze e w s) = Some a \<and> post_avg (analyze e w s) = Some b
           \<and> percent_change (analyze e w s) = Some ((b - a) / a * 100)))
   \<and> (degraded (analyze e w s) \<longleftrightarrow>
        2 * int (length (pre_window e w s)) < w \<or> 2 * int (length (post_window e w s)) < w)
   \<and> analyze \<lparr> ce_date = 2, ce_title = ''event'', ce_type = ''conflict'' \<rparr> 2
      [\<lparr> pp_date = 0, pp_price = 100 \<rparr>, \<lparr> pp_date = 1, pp_price = 102 \<rparr>, \<lparr> pp_date = 2, pp_price = 104 \<rparr>,
       \<lparr> pp_date = 3, pp_price = 98 \<rparr>, \<lparr> pp_date = 4, pp_price = 96 \<rparr>]
     = \<lparr> ir_event = \<lparr> ce_date = 2, ce_title = ''event'', ce_type = ''conflict'' \<rparr>,
         window_days = 2, pre_avg = Some 101, post_avg = Some 97,
         percent_change = Some ((97 / 101 - 1) * 100), degraded = False \<rparr>
   \<and> - 3.97 < (97 / 101 - 1) * (100 :: real) \<and> (97 / 101 - 1) * (100 :: real) < - 3.95"
proof -
  have f: "ir_event (analyze e w s) = e" "window_days (analyze e w s) = w"
    "pre_avg (analyze e w s) = mean (pre_window e w s)"
    "post_avg (analyze e w s) = mean (post_window e w s)"
    "percent_change (analyze e w s) = percent_of (pre_avg (analyze e w s)) (post_avg (analyze e w s))"
    "degraded (analyze e w s) \<longleftrightarrow>
        2 * int (length (pre_window e w s)) < w \<or> 2 * int (length (post_window e w s)) < w"
    by (simp_all add: analyze_def)
  have defined: "\<forall>a b. pre_avg (analyze e w s) = Some a \<and> post_avg (analyze e w s) = Some b \<and> a \<noteq> 0 \<longrightarrow>
         percent_change (analyze e w s) = Some ((b - a) / a * 100)
         \<and> percent_change (analyze e w s) = Some ((b / a - 1) * 100)"
  proof (intro allI impI)
    fix a b
    assume h: "pre_avg (analyze e w s) = Some a \<and> post_avg (analyze e w s) = Some b \<and> a \<noteq> 0"
    then have "percent_change (analyze e w s) = percent_of (Some a) (Some b)" using f(5) by simp
    with h percent_of_alt [of a b]
    show "percent_change (analyze e w s) = Some ((b - a) / a * 100)
         \<and> percent_change (analyze e w s) = Some ((b / a - 1) * 100)"
      by auto
  qed
  have undefined: "pre_avg (analyze e w s) = None \<or> post_avg (analyze e w s) = None
        \<or> pre_avg (analyze e w s) = Some 0 \<longrightarrow> percent_change (analyze e w s) = None"
    unfolding f(5) by (cases "pre_avg (analyze e w s)"; cases "post_avg (analyze e w s)") auto
  have positive: "list_all (\<lambda>p. 0 < pp_price p) s \<and> pre_window e w s \<noteq> [] \<and> post_window e w s \<noteq> [] \<longrightarrow>
        (\<exists>a b. 0 < a \<and> pre_avg (analyze e w s) = Some a \<and> post_avg (analyze e w s) = Some b
           \<and> percent_change (analyze e w s) = Some ((b - a) / a * 100))"
  proof
    assume h: "list_all (\<lambda>p. 0 < pp_price p) s \<and> pre_window e w s \<noteq> [] \<and> post_window e w s \<noteq> []"
    from h window_pos [of s e w] mean_pos [of "pre_window e w s"]
    obtain a where a: "0 < a" "mean (pre_window e w s) = Some a" by blast
    from h window_pos [of s e w] mean_pos [of "post_window e w s"]
    obtain b where b: "mean (post_window e w s) = Some b" by blast
    from a b have "percent_change (analyze e w s) = Some ((b - a) / a * 100)"
      by (simp add: f)
    with a b show "\<exists>a b. 0 < a \<and> pre_avg (analyze e w s) = Some a \<and> post_avg (analyze e w s) = Some b
           \<and> percent_change (analyze e w s) = Some ((b - a) / a * 100)"
      unfolding f(3,4) by blast
  qed
  have literal: "analyze \<lparr> ce_date = 2, ce_title = ''event'', ce_type = ''conflict'' \<rparr> 2
      [\<lparr> pp_date = 0, pp_price = 100 \<rparr>, \<lparr> pp_date = 1, pp_price = 102 \<rparr>, \<lparr> pp_date = 2, pp_price = 104 \<rparr>,
       \<lparr> pp_date = 3, pp_price = 98 \<rparr>, \<lparr> pp_date = 4, pp_price = 96 \<rparr>]
     = \<lparr> ir_event = \<lparr> ce_date = 2, ce_title = ''event'', ce_type = ''conflict'' \<rparr>,
         window_days = 2, pre_avg = Some 101, post_avg = Some 97,
         percent_change = Some ((97 / 101 - 1) * 100), degraded = False \<rparr>"
    by (simp add: analyze_def mean_def pre_window_def post_window_def)
  have approx: "- 3.97 < (97 / 101 - 1) * (100 :: real)" "(97 / 101 - 1) * (100 :: real) < - 3.95"
    by simp_all
  have pre: "pre_avg (analyze e w s)
       = (if pre_window e w s = [] then None
          else Some (sum_list (pre_window e w s) / real (length (pre_window e w s))))"
    unfolding f(3) by (simp add: mean_def)
  have post: "post_avg (analyze e w s)
       = (if post_window e w s = [] then None
          else Some (sum_list (post_window e w s) / real (length (post_window e w s))))"
    unfolding f(4) by (simp add: mean_def)
  show ?thesis
    using f(1) f(2) pre_window_def [of e w s] post_window_def [of e w s] pre post defined undefined
      positive f(6) literal approx
    by (intro conjI)
qed

theorem analyze_windows_witness:
  "pre_avg (analyze \<lparr> ce_date = 0, ce_title = ''first day'', ce_type = ''conflict'' \<rparr> 2
      [\<lparr> pp_date = 0, pp_price = 100 \<rparr>, \<lparr> pp_date = 1, pp_price = 102 \<rparr>, \<lparr> pp_date = 2, pp_price = 104 \<rparr>,
       \<lparr> pp_date = 3, pp_price = 98 \<rparr>, \<lparr> pp_date = 4, pp_price = 96 \<rparr>]) = None
   \<and> post_avg (analyze \<lparr> ce_date = 0, ce_title = ''first day'', ce_type = ''conflict'' \<rparr> 2
      [\<lparr> pp_date = 0, pp_price = 100 \<rparr>, \<lparr> pp_date = 1, pp_price = 102 \<rparr>, \<lparr> pp_date = 2, pp_price = 104 \<rparr>,
       \<lparr> pp_date = 3, pp_price = 98 \<rparr>, \<lparr> pp_date = 4, pp_price = 96 \<rparr>]) = Some 103
   \<and> percent_change (analyze \<lparr> ce_date = 0, ce_title = ''first day'', ce_type = ''conflict'' \<rparr> 2
      [\<lparr> pp_date = 0, pp_price = 100 \<rparr>, \<lparr> pp_date = 1, pp_price = 102 \<rparr>, \<lparr> pp_date = 2, pp_price = 104 \<rparr>,
       \<lparr> pp_date = 3, pp_price = 98 \<rparr>, \<lparr> pp_date = 4, pp_price = 96 \<rparr>]) = None
   \<and> degraded (analyze \<lparr> ce_date = 0, ce_title = ''first day'', ce_type = ''conflict'' \<rparr> 2
      [\<lparr> pp_date = 0, pp_price = 100 \<rparr>, \<lparr> pp_date = 1, pp_price = 102 \<rparr>, \<lparr> pp_date = 2, pp_price = 104 \<rparr>,
       \<lparr> pp_date = 3, pp_price = 98 \<rparr>, \<lparr> pp_date = 4, pp_price = 96 \<rparr>])
   \<and> percent_change (analyze \<lparr> ce_date = 2, ce_title = ''event'', ce_type = ''conflict'' \<rparr> 1
      [\<lparr> pp_date = 0, pp_price = 100 \<rparr>, \<lparr> pp_date = 1, pp_price = 102 \<rparr>, \<lparr> pp_date = 2, pp_price = 104 \<rparr>,
       \<lparr> pp_date = 3, pp_price = 98 \<rparr>, \<lparr> pp_date = 4, pp_price = 96 \<rparr>]) = Some ((98 / 102 - 1) * 100)"
proof -
  let ?s = "[\<lparr> pp_date = 0, pp_price = 100 \<rparr>, \<lparr> pp_date = 1, pp_price = 102 \<rparr>, \<lparr> pp_date = 2, pp_price = 104 \<rparr>,
       \<lparr> pp_date = 3, pp_price = 98 \<rparr>, \<lparr> pp_date = 4, pp_price = 96 \<rparr>]"
  let ?boundary = "\<lparr> ce_date = 0, ce_title = ''first day'', ce_type = ''conflict'' \<rparr>"
  let ?e = "\<lparr> ce_date = 2, ce_title = ''event'', ce_type = ''conflict'' \<rparr>"
  have w0: "pre_window ?boundary 2 ?s = []" "post_window ?boundary 2 ?s = [102, 104]"
    by (simp_all add: pre_window_def post_window_def)
  have w1: "pre_window ?e 1 ?s = [102]" "post_window ?e 1 ?s = [98]"
    by (simp_all add: pre_window_def post_window_def)
  from analyze_windows [of ?boundary 2 ?s]
  have a: "pre_avg (analyze ?boundary 2 ?s) = None" "post_avg (analyze ?boundary 2 ?s) = Some 103"
    "pre_avg (analyze ?boundary 2 ?s) = None \<or> post_avg (analyze ?boundary 2 ?s) = None
        \<or> pre_avg (analyze ?boundary 2 ?s) = Some 0 \<longrightarrow> percent_change (analyze ?boundary 2 ?s) = None"
    "degraded (analyze ?boundary 2 ?s)"
    unfolding w0 by simp_all
  from analyze_windows [of ?e 1 ?s]
  have b: "pre_avg (analyze ?e 1 ?s) = Some 102" "post_avg (analyze ?e 1 ?s) = Some 98"
    "\<forall>a b. pre_avg (analyze ?e 1 ?s) = Some a \<and> post_avg (analyze ?e 1 ?s) = Some b \<and> a \<noteq> 0 \<longrightarrow>
         percent_change (analyze ?e 1 ?s) = Some ((b - a) / a * 100)
         \<and> percent_change (analyze ?e 1 ?s) = Some ((b / a - 1) * 100)"
    unfolding w1 by simp_all
  from b have "percent_change (analyze ?e 1 ?s) = Some ((98 / 102 - 1) * 100)"
    by simp
  with a show ?thesis by simp
qed

lemma computeReturns_length: "length (computeReturns s) = length s - 1"
  by (induction s rule: computeReturns.induct) simp_all

lemma computeReturns_nth:
  "list_all (\<lambda>p. 0 < pp_price p) s \<Longrightarrow> 0 < t \<Longrightarrow> t < length s \<Longrightarrow>
   computeReturns s ! (t - 1) =
     Inr \<lparr> rp_date = pp_date (s ! t),
           simple_return = (pp_price (s ! t) - pp_price (s ! (t - 1))) / pp_price (s ! (t - 1)),
           log_return = ln (pp_price (s ! t) / pp_price (s ! (t - 1))) \<rparr>"
proof (induction s arbitrary: t rule: computeReturns.induct)
  case (1 p q ps)
  show ?case
  proof (cases "t = 1")
    case True
    with "1.prems" show ?thesis by simp
  next
    case False
    with "1.prems" obtain u where u: "t = Suc u" "0 < u" "u < length (q # ps)"
      by (cases t) auto
    from "1.prems" have pos: "list_all (\<lambda>p. 0 < pp_price p) (q # ps)" by simp
    from "1.IH" [OF pos u(2) u(3)] u show ?thesis
      by (cases u) simp_all
  qed
qed simp_all

lemma sgn_ln_ratio:
  fixes a b :: real
  assumes "0 < a" "0 < b"
  shows "sgn (ln (b / a)) = sgn ((b - a) / a)"
proof -
  have r: "0 < b / a" using assms by simp
  consider "b < a" | "b = a" | "a < b" by linarith
  then show ?thesis
  proof cases
    case 1
    then have "b / a < 1" using assms by simp
    then have "ln (b / a) < 0" using r by simp
    moreover have "(b - a) / a < 0" using 1 assms by (simp add: divide_neg_pos)
    ultimately show ?thesis by (simp only: sgn_neg)
  next
    case 2
    then show ?thesis using assms by simp
  next
    case 3
    then have "1 < b / a" using assms by simp
    then have "0 < ln (b / a)" by simp
    moreover have "0 < (b - a) / a" using 3 assms by simp
    ultimately show ?thesis by (simp only: sgn_pos)
  qed
qed

lemma computeReturns_sign:
  "list_all (\<lambda>p. 0 < pp_price p) s \<Longrightarrow> Inr r \<in> set (computeReturns s) \<Longrightarrow>
   sgn (log_return r) = sgn (simple_return r)"
proof (induction s rule: computeReturns.induct)
  case (1 p q ps)
  then show ?case by (auto simp: sgn_ln_ratio)
qed simp_all

text \<open>
  C4. For a series of \<open>n\<close> positive prices, \<open>computeReturns\<close> produces
  \<open>n - 1\<close> return points and no error: the point for position \<open>t\<close> holds the
  simple return \<open>(price[t] - price[t-1]) / price[t-1]\<close> and the log return
  \<open>ln (price[t] / price[t-1])\<close>, and the two have the same sign.
\<close>

theorem computeReturns_points:
  assumes "list_all (\<lambda>p. 0 < pp_price p) s"
  shows "length (computeReturns s) = length s - 1
    \<and> (\<forall>t. 0 < t \<and> t < length s \<longrightarrow>
          computeReturns s ! (t - 1) =
            Inr \<lparr> rp_date = pp_date (s ! t),
                  simple_return = (pp_price (s ! t) - pp_price (s ! (t - 1))) / pp_price (s ! (t - 1)),
                  log_return = ln (pp_price (s ! t) / pp_price (s ! (t - 1))) \<rparr>)
    \<and> (\<forall>r. Inr r \<in> set (computeReturns s) \<longrightarrow> sgn (log_return r) = sgn (simple_return r))"
  using assms computeReturns_length [of s] computeReturns_nth [of s] computeReturns_sign [of s]
  by blast

theorem computeReturns_points_witness:
  "list_all (\<lambda>p. 0 < pp_price p) [\<lparr> pp_date = 0, pp_price = 100 \<rparr>, \<lparr> pp_date = 1, pp_price = 102 \<rparr>, \<lparr> pp_date = 2, pp_price = 51 \<rparr>]
   \<and> length (computeReturns [\<lparr> pp_date = 0, pp_price = 100 \<rparr>, \<lparr> pp_date = 1, pp_price = 102 \<rparr>, \<lparr> pp_date = 2, pp_price = 51 \<rparr>]) = 2
   \<and> computeReturns [\<lparr> pp_date = 0, pp_price = 100 \<rparr>, \<lparr> pp_date = 1, pp_price = 102 \<rparr>, \<lparr> pp_date = 2, pp_price = 51 \<rparr>] ! 0
       = Inr \<lparr> rp_date = 1, simple_return = (102 - 100) / 100, log_return = ln (102 / 100) \<rparr>
   \<and> sgn (ln (102 / 100 :: real)) = sgn ((102 - 100) / 100 :: real)"
proof -
  have h: "list_all (\<lambda>p. 0 < pp_price p) [\<lparr> pp_date = 0, pp_price = 100 \<rparr>, \<lparr> pp_date = 1, pp_price = 102 \<rparr>, \<lparr> pp_date = 2, pp_price = 51 \<rparr>]"
    by simp
  from computeReturns_points [OF h]
  have l: "length (computeReturns [\<lparr> pp_date = 0, pp_price = 100 \<rparr>, \<lparr> pp_date = 1, pp_price = 102 \<rparr>, \<lparr> pp_date = 2, pp_price = 51 \<rparr>]) = 2"
    and n: "computeReturns [\<lparr> pp_date = 0, pp_price = 100 \<rparr>, \<lparr> pp_date = 1, pp_price = 102 \<rparr>, \<lparr> pp_date = 2, pp_price = 51 \<rparr>] ! (1 - 1)
       = Inr \<lparr> rp_date = 1, simple_return = (102 - 100) / 100, log_return = ln (102 / 100) \<rparr>"
    and g: "\<forall>r. Inr r \<in> set (computeReturns [\<lparr> pp_date = 0, pp_price = 100 \<rparr>, \<lparr> pp_date = 1, pp_price = 102 \<rparr>, \<lparr> pp_date = 2, pp_price = 51 \<rparr>])
          \<longrightarrow> sgn (log_return r) = sgn (simple_return r)"
    by simp_all
  from n have m: "Inr \<lparr> rp_date = 1, simple_return = (102 - 100) / 100, log_return = ln (102 / 100) \<rparr>
      \<in> set (computeReturns [\<lparr> pp_date = 0, pp_price = 100 \<rparr>, \<lparr> pp_date = 1, pp_price = 102 \<rparr>, \<lparr> pp_date = 2, pp_price = 51 \<rparr>])"
    by simp
  from g m have "sgn (log_return \<lparr> rp_date = 1, simple_return = (102 - 100) / 100, log_return = ln (102 / 100) \<rparr>)
     = sgn (simple_return \<lparr> rp_date = 1, simple_return = (102 - 100) / 100, log_return = ln (102 / 100) \<rparr>)"
    by blast
  then have sg: "sgn (ln (102 / 100 :: real)) = sgn ((102 - 100) / 100 :: real)"
    by simp
  from h l n sg show ?thesis by simp
qed

lemma date_bounds: "p \<in> set s \<Longrightarrow> min_date s \<le> pp_date p \<and> pp_date p \<le> max_date s"
  by (simp add: min_date_def max_date_def)

lemma clamp_cases:
  "s \<noteq> [] \<Longrightarrow> clamp s d = (if d < min_date s then min_date s else if max_date s < d then max_date s else d)"
proof -
  assume "s \<noteq> []"
  then obtain p where "p \<in> set s" by (cases s) auto
  then have "min_date s \<le> max_date s" using date_bounds [of p s] by linarith
  then show ?thesis by (auto simp: clamp_def)
qed

lemma slice_sorted: "sorted_wrt (<) (map pp_date s) \<Longrightarrow> sorted_wrt (<) (map pp_date (slice a b s))"
  by (simp add: slice_def sorted_wrt_map sorted_wrt_filter)

lemma slice_full: "slice (min_date s) (max_date s) s = s"
proof (cases "s = []")
  case True
  then show ?thesis by (simp add: slice_def)
next
  case False
  then obtain p where "p \<in> set s" by (cases s) auto
  then have "min_date s \<le> max_date s" using date_bounds [of p s] by linarith
  then have "clamp s (min_date s) = min_date s" "clamp s (max_date s) = max_date s"
    by (simp_all add: clamp_def)
  then show ?thesis
    using False by (simp add: slice_def date_bounds)
qed

text \<open>
  C5. For a loaded series, \<open>slice start end\<close> returns exactly the points
  whose date lies between the clamped endpoints, where an endpoint outside
  the data's bounds is moved to the nearest bound; the dates of the result
  increase strictly; and slicing from the first to the last date gives the
  series back.
\<close>

theorem slice_clamped:
  assumes "loaded s"
  shows "slice a b s = filter (\<lambda>p. clamp s a \<le> pp_date p \<and> pp_date p \<le> clamp s b) s
    \<and> (\<forall>d. s \<noteq> [] \<longrightarrow>
          clamp s d = (if d < min_date s then min_date s else if max_date s < d then max_date s else d))
    \<and> sorted_wrt (<) (map pp_date (slice a b s))
    \<and> slice (min_date s) (max_date s) s = s"
proof -
  from assms have srt: "sorted_wrt (<) (map pp_date s)" by (simp add: loaded_def)
  have 1: "slice a b s = filter (\<lambda>p. clamp s a \<le> pp_date p \<and> pp_date p \<le> clamp s b) s"
    by (simp add: slice_def)
  show ?thesis
    using 1 clamp_cases [of s] slice_sorted [OF srt, of a b] slice_full [of s] by blast
qed

theorem slice_clamped_witness:
  "loaded [\<lparr> pp_date = 0, pp_price = 10 \<rparr>, \<lparr> pp_date = 1, pp_price = 11 \<rparr>,
      \<lparr> pp_date = 2, pp_price = 12 \<rparr>, \<lparr> pp_date = 3, pp_price = 13 \<rparr>]
   \<and> slice (- 5) 1 [\<lparr> pp_date = 0, pp_price = 10 \<rparr>, \<lparr> pp_date = 1, pp_price = 11 \<rparr>,
      \<lparr> pp_date = 2, pp_price = 12 \<rparr>, \<lparr> pp_date = 3, pp_price = 13 \<rparr>]
       = [\<lparr> pp_date = 0, pp_price = 10 \<rparr>, \<lparr> pp_date = 1, pp_price = 11 \<rparr>]
   \<and> min_date [\<lparr> pp_date = 0, pp_price = 10 \<rparr>, \<lparr> pp_date = 1, pp_price = 11 \<rparr>,
      \<lparr> pp_date = 2, pp_price = 12 \<rparr>, \<lparr> pp_date = 3, pp_price = 13 \<rparr>] = 0
   \<and> max_date [\<lparr> pp_date = 0, pp_price = 10 \<rparr>, \<lparr> pp_date = 1, pp_price = 11 \<rparr>,
      \<lparr> pp_date = 2, pp_price = 12 \<rparr>, \<lparr> pp_date = 3, pp_price = 13 \<rparr>] = 3
   \<and> slice 0 3 [\<lparr> pp_date = 0, pp_price = 10 \<rparr>, \<lparr> pp_date = 1, pp_price = 11 \<rparr>,
      \<lparr> pp_date = 2, pp_price = 12 \<rparr>, \<lparr> pp_date = 3, pp_price = 13 \<rparr>]
       = [\<lparr> pp_date = 0, pp_price = 10 \<rparr>, \<lparr> pp_date = 1, pp_price = 11 \<rparr>,
      \<lparr> pp_date = 2, pp_price = 12 \<rparr>, \<lparr> pp_date = 3, pp_price = 13 \<rparr>]"
proof -
  have h: "loaded [\<lparr> pp_date = 0, pp_price = 10 \<rparr>, \<lparr> pp_date = 1, pp_price = 11 \<rparr>,
      \<lparr> pp_date = 2, pp_price = 12 \<rparr>, \<lparr> pp_date = 3, pp_price = 13 \<rparr>]"
    by (simp add: loaded_def)
  have mn: "min_date [\<lparr> pp_date = 0, pp_price = 10 \<rparr>, \<lparr> pp_date = 1, pp_price = 11 \<rparr>,
      \<lparr> pp_date = 2, pp_price = 12 \<rparr>, \<lparr> pp_date = 3, pp_price = 13 \<rparr>] = 0"
    by (simp add: min_date_def)
  have mx: "max_date [\<lparr> pp_date = 0, pp_price = 10 \<rparr>, \<lparr> pp_date = 1, pp_price = 11 \<rparr>,
      \<lparr> pp_date = 2, pp_price = 12 \<rparr>, \<lparr> pp_date = 3, pp_price = 13 \<rparr>] = 3"
    by (simp add: max_date_def)
  from slice_clamped [OF h, of "- 5" 1] mn mx
  have "slice (- 5) 1 [\<lparr> pp_date = 0, pp_price = 10 \<rparr>, \<lparr> pp_date = 1, pp_price = 11 \<rparr>,
      \<lparr> pp_date = 2, pp_price = 12 \<rparr>, \<lparr> pp_date = 3, pp_price = 13 \<rparr>]
       = [\<lparr> pp_date = 0, pp_price = 10 \<rparr>, \<lparr> pp_date = 1, pp_price = 11 \<rparr>]"
    by simp
  moreover from slice_clamped [OF h, of 0 3] mn mx
  have "slice 0 3 [\<lparr> pp_date = 0, pp_price = 10 \<rparr>, \<lparr> pp_date = 1, pp_price = 11 \<rparr>,
      \<lparr> pp_date = 2, pp_price = 12 \<rparr>, \<lparr> pp_date = 3, pp_price = 13 \<rparr>]
       = [\<lparr> pp_date = 0, pp_price = 10 \<rparr>, \<lparr> pp_date = 1, pp_price = 11 \<rparr>,
      \<lparr> pp_date = 2, pp_price = 12 \<rparr>, \<lparr> pp_date = 3, pp_price = 13 \<rparr>]"
    by simp
  ultimately show ?thesis using h mn mx by simp
qed

lemma set_resample_by: "set (resample_by key s) \<subseteq> set s"
  by (induction s) (auto simp: list_ex_iff)

lemma resample_by_distinct: "distinct (map pp_date s) \<Longrightarrow> resample_by (\<lambda>d. d) s = s"
  by (induction s) (auto simp: list_ex_iff image_iff)

lemma resample_by_last:
  "k \<in> set (map (\<lambda>p. key (pp_date p)) s) \<Longrightarrow>
   filter (\<lambda>p. key (pp_date p) = k) (resample_by key s) = [last (filter (\<lambda>p. key (pp_date p) = k) s)]"
proof (induction s)
  case Nil
  then show ?case by simp
next
  case (Cons p ps)
  show ?case
  proof (cases "list_ex (\<lambda>q. key (pp_date q) = key (pp_date p)) ps")
    case True
    then obtain q where "q \<in> set ps" "key (pp_date q) = key (pp_date p)"
      by (auto simp: list_ex_iff)
    then have later: "key (pp_date p) \<in> set (map (\<lambda>p. key (pp_date p)) ps)"
      by (metis (mono_tags, lifting) image_eqI set_map)
    with Cons.prems have k: "k \<in> set (map (\<lambda>p. key (pp_date p)) ps)" by auto
    then have ne: "filter (\<lambda>p. key (pp_date p) = k) ps \<noteq> []"
      by (auto simp: filter_empty_conv)
    from Cons.IH [OF k] True ne show ?thesis by simp
  next
    case False
    show ?thesis
    proof (cases "key (pp_date p) = k")
      case True
      with False have none: "\<forall>q \<in> set ps. key (pp_date q) \<noteq> k"
        by (auto simp: list_ex_iff)
      then have "filter (\<lambda>p. key (pp_date p) = k) ps = []" by (auto simp: filter_empty_conv)
      moreover from none set_resample_by [of key ps]
      have "filter (\<lambda>p. key (pp_date p) = k) (resample_by key ps) = []"
        by (auto simp: filter_empty_conv)
      ultimately show ?thesis using True False by simp
    next
      case ne: False
      with Cons.prems have k: "k \<in> set (map (\<lambda>p. key (pp_date p)) ps)" by auto
      from Cons.IH [OF k] ne False show ?thesis by simp
    qed
  qed
qed

lemma period_Daily: "period cal Daily = (\<lambda>d. d)"
  by (rule ext) simp

text \<open>
  C6. Resampling a series with one observation per day at the daily
  granularity is the identity. For every granularity the result holds, for
  each period of the input, exactly one point, the last observation of that
  period, and nothing else.
\<close>

theorem resample_last_of_period:
  "(distinct (map pp_date s) \<longrightarrow> resample cal s Daily = s)
   \<and> (\<forall>k \<in> set (map (\<lambda>p. period cal g (pp_date p)) s).
        filter (\<lambda>p. period cal g (pp_date p) = k) (resample cal s g)
          = [last (filter (\<lambda>p. period cal g (pp_date p) = k) s)])
   \<and> set (resample cal s g) \<subseteq> set s"
  using resample_by_distinct [of s] resample_by_last [of _ "period cal g" s]
    set_resample_by [of "period cal g" s]
  by (simp add: resample_def period_Daily)

theorem resample_last_of_period_witness:
  "resample \<lparr> week_of = (\<lambda>d. d div 7), month_of = (\<lambda>d. d div 30),
      quarter_of = (\<lambda>d. d div 90), year_of = (\<lambda>d. d div 365) \<rparr>
     [\<lparr> pp_date = 5, pp_price = 10 \<rparr>, \<lparr> pp_date = 6, pp_price = 11 \<rparr>,
      \<lparr> pp_date = 7, pp_price = 12 \<rparr>, \<lparr> pp_date = 8, pp_price = 13 \<rparr>] Daily
     = [\<lparr> pp_date = 5, pp_price = 10 \<rparr>, \<lparr> pp_date = 6, pp_price = 11 \<rparr>,
      \<lparr> pp_date = 7, pp_price = 12 \<rparr>, \<lparr> pp_date = 8, pp_price = 13 \<rparr>]
   \<and> filter (\<lambda>p. pp_date p div 7 = 0)
       (resample \<lparr> week_of = (\<lambda>d. d div 7), month_of = (\<lambda>d. d div 30),
      quarter_of = (\<lambda>d. d div 90), year_of = (\<lambda>d. d div 365) \<rparr>
          [\<lparr> pp_date = 5, pp_price = 10 \<rparr>, \<lparr> pp_date = 6, pp_price = 11 \<rparr>,
      \<lparr> pp_date = 7, pp_price = 12 \<rparr>, \<lparr> pp_date = 8, pp_price = 13 \<rparr>] Weekly)
     = [\<lparr> pp_date = 6, pp_price = 11 \<rparr>]
   \<and> resample \<lparr> week_of = (\<lambda>d. d div 7), month_of = (\<lambda>d. d div 30),
      quarter_of = (\<lambda>d. d div 90), year_of = (\<lambda>d. d div 365) \<rparr>
          [\<lparr> pp_date = 5, pp_price = 10 \<rparr>, \<lparr> pp_date = 6, pp_price = 11 \<rparr>,
      \<lparr> pp_date = 7, pp_price = 12 \<rparr>, \<lparr> pp_date = 8, pp_price = 13 \<rparr>] Weekly
     = [\<lparr> pp_date = 6, pp_price = 11 \<rparr>, \<lparr> pp_date = 8, pp_price = 13 \<rparr>]"
proof -
  have d: "distinct (map pp_date [\<lparr> pp_date = 5, pp_price = 10 \<rparr>, \<lparr> pp_date = 6, pp_price = 11 \<rparr>,
      \<lparr> pp_date = 7, pp_price = 12 \<rparr>, \<lparr> pp_date = 8, pp_price = 13 \<rparr>])"
    by simp
  have k: "0 \<in> set (map (\<lambda>p. period \<lparr> week_of = (\<lambda>d. d div 7), month_of = (\<lambda>d. d div 30),
      quarter_of = (\<lambda>d. d div 90), year_of = (\<lambda>d. d div 365) \<rparr> Weekly (pp_date p))
      [\<lparr> pp_date = 5, pp_price = 10 \<rparr>, \<lparr> pp_date = 6, pp_price = 11 \<rparr>,
      \<lparr> pp_date = 7, pp_price = 12 \<rparr>, \<lparr> pp_date = 8, pp_price = 13 \<rparr>])"
    by simp
  from resample_last_of_period [of "[\<lparr> pp_date = 5, pp_price = 10 \<rparr>, \<lparr> pp_date = 6, pp_price = 11 \<rparr>,
      \<lparr> pp_date = 7, pp_price = 12 \<rparr>, \<lparr> pp_date = 8, pp_price = 13 \<rparr>]"
      "\<lparr> week_of = (\<lambda>d. d div 7), month_of = (\<lambda>d. d div 30),
      quarter_of = (\<lambda>d. d div 90), year_of = (\<lambda>d. d div 365) \<rparr>" Weekly] d k
  have "resample \<lparr> week_of = (\<lambda>d. d div 7), month_of = (\<lambda>d. d div 30),
      quarter_of = (\<lambda>d. d div 90), year_of = (\<lambda>d. d div 365) \<rparr>
     [\<lparr> pp_date = 5, pp_price = 10 \<rparr>, \<lparr> pp_date = 6, pp_price = 11 \<rparr>,
      \<lparr> pp_date = 7, pp_price = 12 \<rparr>, \<lparr> pp_date = 8, pp_price = 13 \<rparr>] Daily
     = [\<lparr> pp_date = 5, pp_price = 10 \<rparr>, \<lparr> pp_date = 6, pp_price = 11 \<rparr>,
      \<lparr> pp_date = 7, pp_price = 12 \<rparr>, \<lparr> pp_date = 8, pp_price = 13 \<rparr>]"
    and "filter (\<lambda>p. period \<lparr> week_of = (\<lambda>d. d div 7), month_of = (\<lambda>d. d div 30),
      quarter_of = (\<lambda>d. d div 90), year_of = (\<lambda>d. d div 365) \<rparr> Weekly (pp_date p) = 0)
       (resample \<lparr> week_of = (\<lambda>d. d div 7), month_of = (\<lambda>d. d div 30),
      quarter_of = (\<lambda>d. d div 90), year_of = (\<lambda>d. d div 365) \<rparr>
          [\<lparr> pp_date = 5, pp_price = 10 \<rparr>, \<lparr> pp_date = 6, pp_price = 11 \<rparr>,
      \<lparr> pp_date = 7, pp_price = 12 \<rparr>, \<lparr> pp_date = 8, pp_price = 13 \<rparr>] Weekly)
     = [last (filter (\<lambda>p. period \<lparr> week_of = (\<lambda>d. d div 7), month_of = (\<lambda>d. d div 30),
      quarter_of = (\<lambda>d. d div 90), year_of = (\<lambda>d. d div 365) \<rparr> Weekly (pp_date p) = 0)
           [\<lparr> pp_date = 5, pp_price = 10 \<rparr>, \<lparr> pp_date = 6, pp_price = 11 \<rparr>,
      \<lparr> pp_date = 7, pp_price = 12 \<rparr>, \<lparr> pp_date = 8, pp_price = 13 \<rparr>])]"
    by blast+
  then show ?thesis
    by (simp add: resample_def)
qed

lemma collect_eq:
  "collect analyse es =
     (List.map_filter (\<lambda>e. case analyse e of Inl err \<Rightarrow> None | Inr r \<Rightarrow> Some r) es,
      length (filter (\<lambda>e. isl (analyse e)) es))"
  by (induction es) (auto simp: map_filter_simps split: sum.splits)

lemma map_filter_successes:
  "List.map_filter f (filter (\<lambda>e. f e \<noteq> None) es) = List.map_filter f es"
  by (induction es) (auto simp: map_filter_simps split: option.splits)

lemma length_map_filter_successes:
  "length (List.map_filter f es) + length (filter (\<lambda>e. f e = None) es) = length es"
  by (induction es) (auto simp: map_filter_simps split: option.splits)

text \<open>
  C7. Whatever the per-event analysis does, the aggregation returns a table:
  it holds exactly the results of the events whose analysis succeeded, in
  ranked order, the count beside it is the number of events whose analysis
  failed, and the table is the one obtained from the succeeding events alone.
\<close>

theorem rank_tolerant_omits_failures:
  "mset (fst (rank_tolerant analyse events))
     = mset (List.map_filter (\<lambda>e. case analyse e of Inl err \<Rightarrow> None | Inr r \<Rightarrow> Some r) events)
   \<and> sorted (map rank_key (fst (rank_tolerant analyse events)))
   \<and> snd (rank_tolerant analyse events) = length (filter (\<lambda>e. isl (analyse e)) events)
   \<and> length (fst (rank_tolerant analyse events)) + snd (rank_tolerant analyse events) = length events
   \<and> fst (rank_tolerant analyse events)
       = fst (rank_tolerant analyse (filter (\<lambda>e. \<not> isl (analyse e)) events))"
proof -
  let ?f = "\<lambda>e. case analyse e of Inl err \<Rightarrow> None | Inr r \<Rightarrow> Some r"
  have n: "(?f e = None) = isl (analyse e)" for e
    by (cases "analyse e") simp_all
  have t: "fst (rank_tolerant analyse es) = sort_key rank_key (List.map_filter ?f es)" for es
    by (simp add: rank_tolerant_def collect_eq)
  have o: "snd (rank_tolerant analyse events) = length (filter (\<lambda>e. isl (analyse e)) events)"
    by (simp add: rank_tolerant_def collect_eq)
  have l: "length (List.map_filter ?f events) + length (filter (\<lambda>e. isl (analyse e)) events) = length events"
    using length_map_filter_successes [of ?f events] by (simp add: n)
  have r: "List.map_filter ?f (filter (\<lambda>e. \<not> isl (analyse e)) events) = List.map_filter ?f events"
    using map_filter_successes [of ?f events] by (simp add: n)
  show ?thesis
    using o l by (simp add: t r)
qed


theorem rank_tolerant_omits_failures_witness:
  "rank_tolerant
      (\<lambda>e. case pre_avg (analyze e 2
         [\<lparr> pp_date = 0, pp_price = 100 \<rparr>, \<lparr> pp_date = 1, pp_price = 102 \<rparr>, \<lparr> pp_date = 2, pp_price = 104 \<rparr>,
       \<lparr> pp_date = 3, pp_price = 98 \<rparr>, \<lparr> pp_date = 4, pp_price = 96 \<rparr>]) of
          None \<Rightarrow> Inl ComputationError
        | Some a \<Rightarrow>
           (case post_avg (analyze e 2
         [\<lparr> pp_date = 0, pp_price = 100 \<rparr>, \<lparr> pp_date = 1, pp_price = 102 \<rparr>, \<lparr> pp_date = 2, pp_price = 104 \<rparr>,
       \<lparr> pp_date = 3, pp_price = 98 \<rparr>, \<lparr> pp_date = 4, pp_price = 96 \<rparr>]) of
              None \<Rightarrow> Inl ComputationError
            | Some b \<Rightarrow>
               (case percent_change (analyze e 2
         [\<lparr> pp_date = 0, pp_price = 100 \<rparr>, \<lparr> pp_date = 1, pp_price = 102 \<rparr>, \<lparr> pp_date = 2, pp_price = 104 \<rparr>,
       \<lparr> pp_date = 3, pp_price = 98 \<rparr>, \<lparr> pp_date = 4, pp_price = 96 \<rparr>]) of
                  None \<Rightarrow> Inl ComputationError
                | Some c \<Rightarrow> Inr \<lparr> ir_event = e, window_days = 2, pre_avg = a, post_avg = b,
                                   percent_change = c, degraded = False \<rparr>)))
      [\<lparr> ce_date = 9, ce_title = ''late'', ce_type = ''conflict'' \<rparr>,
       \<lparr> ce_date = 2, ce_title = ''event'', ce_type = ''conflict'' \<rparr>]
   = ([\<lparr> ir_event = \<lparr> ce_date = 2, ce_title = ''event'', ce_type = ''conflict'' \<rparr>,
        window_days = 2, pre_avg = 101, post_avg = 97,
        percent_change = (97 / 101 - 1) * 100, degraded = False \<rparr>], 1)"
proof -
  let ?s = "[\<lparr> pp_date = 0, pp_price = 100 \<rparr>, \<lparr> pp_date = 1, pp_price = 102 \<rparr>, \<lparr> pp_date = 2, pp_price = 104 \<rparr>,
       \<lparr> pp_date = 3, pp_price = 98 \<rparr>, \<lparr> pp_date = 4, pp_price = 96 \<rparr>]"
  let ?an = "(\<lambda>e. case pre_avg (analyze e 2
         [\<lparr> pp_date = 0, pp_price = 100 \<rparr>, \<lparr> pp_date = 1, pp_price = 102 \<rparr>, \<lparr> pp_date = 2, pp_price = 104 \<rparr>,
       \<lparr> pp_date = 3, pp_price = 98 \<rparr>, \<lparr> pp_date = 4, pp_price = 96 \<rparr>]) of
          None \<Rightarrow> Inl ComputationError
        | Some a \<Rightarrow>
           (case post_avg (analyze e 2
         [\<lparr> pp_date = 0, pp_price = 100 \<rparr>, \<lparr> pp_date = 1, pp_price = 102 \<rparr>, \<lparr> pp_date = 2, pp_price = 104 \<rparr>,
       \<lparr> pp_date = 3, pp_price = 98 \<rparr>, \<lparr> pp_date = 4, pp_price = 96 \<rparr>]) of
              None \<Rightarrow> Inl ComputationError
            | Some b \<Rightarrow>
               (case percent_change (analyze e 2
         [\<lparr> pp_date = 0, pp_price = 100 \<rparr>, \<lparr> pp_date = 1, pp_price = 102 \<rparr>, \<lparr> pp_date = 2, pp_price = 104 \<rparr>,
       \<lparr> pp_date = 3, pp_price = 98 \<rparr>, \<lparr> pp_date = 4, pp_price = 96 \<rparr>]) of
                  None \<Rightarrow> Inl ComputationError
                | Some c \<Rightarrow> Inr \<lparr> ir_event = e, window_days = 2, pre_avg = a, post_avg = b,
                                   percent_change = c, degraded = False \<rparr>)))"
  have a: "analyze \<lparr> ce_date = 2, ce_title = ''event'', ce_type = ''conflict'' \<rparr> 2 ?s
      = \<lparr> ir_event = \<lparr> ce_date = 2, ce_title = ''event'', ce_type = ''conflict'' \<rparr>,
          window_days = 2, pre_avg = Some 101, post_avg = Some 97,
          percent_change = Some ((97 / 101 - 1) * 100), degraded = False \<rparr>"
    by (simp add: analyze_def mean_def pre_window_def post_window_def)
  have b: "pre_avg (analyze \<lparr> ce_date = 9, ce_title = ''late'', ce_type = ''conflict'' \<rparr> 2 ?s) = None"
    by (simp add: analyze_def mean_def pre_window_def post_window_def)
  from rank_tolerant_omits_failures [of ?an
      "[\<lparr> ce_date = 9, ce_title = ''late'', ce_type = ''conflict'' \<rparr>,
       \<lparr> ce_date = 2, ce_title = ''event'', ce_type = ''conflict'' \<rparr>]"]
  have "snd (rank_tolerant ?an [\<lparr> ce_date = 9, ce_title = ''late'', ce_type = ''conflict'' \<rparr>,
       \<lparr> ce_date = 2, ce_title = ''event'', ce_type = ''conflict'' \<rparr>]) = 1"
    and "mset (fst (rank_tolerant ?an [\<lparr> ce_date = 9, ce_title = ''late'', ce_type = ''conflict'' \<rparr>,
       \<lparr> ce_date = 2, ce_title = ''event'', ce_type = ''conflict'' \<rparr>]))
      = {# \<lparr> ir_event = \<lparr> ce_date = 2, ce_title = ''event'', ce_type = ''conflict'' \<rparr>,
        window_days = 2, pre_avg = 101, post_avg = 97,
        percent_change = (97 / 101 - 1) * 100, degraded = False \<rparr> #}"
    by (simp_all add: a b map_filter_simps)
  then show ?thesis
    by (cases "rank_tolerant ?an [\<lparr> ce_date = 9, ce_title = ''late'', ce_type = ''conflict'' \<rparr>,
       \<lparr> ce_date = 2, ce_title = ''event'', ce_type = ''conflict'' \<rparr>]") (auto simp: mset_single_iff_right)
qed

end
